theory Spec2Isabelle
  imports Complex_Main
begin

section \<open>Data model\<close>

text \<open>
  Instants are JavaScript \<open>Date\<close> values: integer milliseconds since the epoch
  (what \<open>Date.getTime\<close> and \<open>Date.now\<close> return; a \<open>timestamptz\<close> column
  holds the same instant). A \<open>date\<close> column (\<open>'YYYY-MM-DD'\<close>) is the number of
  days since 1970-01-01. User ids and commit hashes are strings. The \<open>id\<close> column of
  each table is the key the database generates, numbered here, and is named after its
  table. Each table has an \<open>Insert\<close> shape (what the caller supplies; no caller
  supplies an id) and a \<open>Row\<close> shape. The columns \<open>created_at\<close> and
  \<open>updated_at\<close>, which the database fills in and no function below reads, are left out.
\<close>

type_synonym instant = int
type_synonym day = int

record owned =
  user_id :: string

record dated = owned +
  date :: day

text \<open>Table \<open>activity_insights\<close>.\<close>

record activity_insight_insert = dated +
  productivity_score :: "int option"
  sleep_score :: "int option"
  commit_count :: int
  active_hours :: real
  recommendations :: "string list option"

record activity_insight = activity_insight_insert +
  insight_id :: nat

text \<open>Table \<open>sleep_records\<close>.\<close>

record sleep_record_insert = dated +
  start_time :: instant
  end_time :: instant
  duration_hours :: real
  quality_score :: "int option"
  sleep_notes :: "string option"

record sleep_record = sleep_record_insert +
  sleep_id :: nat

text \<open>Table \<open>commit_records\<close>.\<close>

record commit_record_insert = owned +
  repository :: string
  commit_hash :: string
  commit_message :: "string option"
  commit_timestamp :: instant

record commit_record = commit_record_insert +
  commit_id :: nat

section \<open>Clock and calendar\<close>

definition ms_per_day :: int where
  "ms_per_day = 86400000"

definition ms_per_hour :: int where
  "ms_per_hour = 3600000"

text \<open>\<open>d.toISOString().split('T')[0]\<close>: the calendar date of an instant in UTC.\<close>

definition utc_date :: "instant \<Rightarrow> day" where
  "utc_date d = d div ms_per_day"

text \<open>
  Local time is modelled at a fixed offset \<open>tz\<close> (in ms) from UTC: the local clock
  reads \<open>d + tz\<close>. \<open>setHours\<close> keeps the local calendar day and sets the time of day;
  \<open>getHours\<close> reads the local hour of day.
\<close>

definition setHours :: "int \<Rightarrow> instant \<Rightarrow> int \<Rightarrow> int \<Rightarrow> int \<Rightarrow> int \<Rightarrow> instant" where
  "setHours tz d h m s ms =
     d - (d + tz) mod ms_per_day + (h * ms_per_hour + m * 60000 + s * 1000 + ms)"

definition getHours :: "int \<Rightarrow> instant \<Rightarrow> int" where
  "getHours tz d = ((d + tz) mod ms_per_day) div ms_per_hour"

text \<open>\<open>subDays\<close> of date-fns, under the same fixed offset.\<close>

definition subDays :: "instant \<Rightarrow> int \<Rightarrow> instant" where
  "subDays d n = d - n * ms_per_day"

section \<open>Metrics of the monthly report\<close>

text \<open>\<open>x || 0\<close> on a nullable score: \<open>null\<close> (and \<open>0\<close>) give \<open>0\<close>.\<close>

definition or0 :: "int option \<Rightarrow> int" where
  "or0 v = (case v of None \<Rightarrow> 0 | Some n \<Rightarrow> n)"

text \<open>
  The body of the \<open>for (let i = 1; i < data.length; i++)\<close> loop of
  \<open>calculateConsistencyScore\<close>, with the counter \<open>consistencyScore\<close> as accumulator.
\<close>

function consistency_loop ::
  "activity_insight list \<Rightarrow> nat \<Rightarrow> nat \<Rightarrow> nat" where
  "consistency_loop data i consistencyScore =
     (if i < length data then
        (let prevDay = data ! (i - 1);
             currentDay = data ! i;
             s1 = (if \<bar>or0 (sleep_score prevDay) - or0 (sleep_score currentDay)\<bar> < 20
                   then consistencyScore + 1 else consistencyScore);
             s2 = (if \<bar>or0 (productivity_score prevDay)
                        - or0 (productivity_score currentDay)\<bar> < 20
                   then s1 + 1 else s1)
         in consistency_loop data (i + 1) s2)
      else consistencyScore)"
  by pat_completeness auto
termination
  by (relation "measure (\<lambda>(data, i, s). length data - i)") auto

declare consistency_loop.simps [simp del]

definition calculateConsistencyScore :: "activity_insight list \<Rightarrow> real" where
  "calculateConsistencyScore data =
     (if length data < 2 then 0
      else (real (consistency_loop data 1 0) / real ((length data - 1) * 2)) * 100)"

definition getPercentageChange :: "real \<Rightarrow> real \<Rightarrow> real" where
  "getPercentageChange current previous =
     (if previous = 0 then 100 else ((current - previous) / previous) * 100)"

text \<open>
  The consistency score as the specification words it: one point per adjacent pair of
  days whose sleep scores differ by less than 20, one point per adjacent pair whose
  productivity scores differ by less than 20.
\<close>

definition sleep_point :: "activity_insight \<Rightarrow> activity_insight \<Rightarrow> nat" where
  "sleep_point a b = (if \<bar>or0 (sleep_score a) - or0 (sleep_score b)\<bar> < 20 then 1 else 0)"

definition productivity_point ::
  "activity_insight \<Rightarrow> activity_insight \<Rightarrow> nat" where
  "productivity_point a b =
     (if \<bar>or0 (productivity_score a) - or0 (productivity_score b)\<bar> < 20 then 1 else 0)"

fun spec_points :: "activity_insight list \<Rightarrow> nat" where
  "spec_points (a # b # rest) = sleep_point a b + productivity_point a b + spec_points (b # rest)"
| "spec_points _ = 0"

definition spec_consistency :: "activity_insight list \<Rightarrow> real" where
  "spec_consistency data =
     (if length data < 2 then 0
      else real (spec_points data) / real (2 * (length data - 1)) * 100)"


subsection \<open>Weekly buckets of the monthly report\<close>

text \<open>
  \<open>new Date(insight.date)\<close> on a \<open>'YYYY-MM-DD'\<close> string is midnight UTC of that day.
\<close>

definition insightDate :: "activity_insight \<Rightarrow> instant" where
  "insightDate insight = date insight * ms_per_day"

text \<open>
  The \<open>insights.filter\<close> callback of \<open>weeklyData\<close>. Its second conjunct calls
  \<open>weekStart.setDate(weekStart.getDate() + 7)\<close>, which moves the \<open>weekStart\<close> object
  itself seven days on and returns the new instant; \<open>&&\<close> evaluates it only when the first
  conjunct holds. The function threads the current value of \<open>weekStart\<close> through the
  elements in the order \<open>filter\<close> visits them. Local time is at a fixed offset from UTC,
  so seven calendar days are \<open>7 * 86400000\<close> ms.
\<close>

fun weekInsights :: "instant \<Rightarrow> activity_insight list \<Rightarrow> activity_insight list" where
  "weekInsights weekStart [] = []"
| "weekInsights weekStart (insight # rest) =
     (if insightDate insight \<ge> weekStart then
        (let weekStart' = weekStart + 7 * ms_per_day
         in if insightDate insight < weekStart'
            then insight # weekInsights weekStart' rest
            else weekInsights weekStart' rest)
      else weekInsights weekStart rest)"

text \<open>\<open>sum / n || 0\<close>: \<open>0 / 0\<close> is \<open>NaN\<close>, and \<open>NaN || 0\<close> is \<open>0\<close>.\<close>

definition div_or0 :: "real \<Rightarrow> nat \<Rightarrow> real" where
  "div_or0 x n = (if n = 0 then 0 else x / real n)"

record week_row =
  week :: nat
  commits :: int
  sleep :: real
  productivity :: real
  activeHours :: real

text \<open>
  One row per week start. The week starts are what \<open>eachWeekOfInterval\<close> of date-fns
  returns for the selected month (a library call; the list is a parameter here). The label
  \<open>`Week ${index + 1}`\<close> is kept as the number \<open>index + 1\<close>.
\<close>

definition week_entry :: "activity_insight list \<Rightarrow> nat \<times> instant \<Rightarrow> week_row" where
  "week_entry insights p =
     (let weekInsights = weekInsights (snd p) insights
      in \<lparr>week = fst p + 1,
          commits = foldl (\<lambda>sum insight. sum + commit_count insight) 0 weekInsights,
          sleep = div_or0 (foldl (\<lambda>sum insight. sum + real_of_int (or0 (sleep_score insight))) 0
                             weekInsights) (length weekInsights),
          productivity =
            div_or0 (foldl (\<lambda>sum insight. sum + real_of_int (or0 (productivity_score insight))) 0
                       weekInsights) (length weekInsights),
          activeHours = foldl (\<lambda>sum insight. sum + active_hours insight) 0 weekInsights\<rparr>)"

definition weeklyData :: "instant list \<Rightarrow> activity_insight list \<Rightarrow> week_row list" where
  "weeklyData weekStarts insights = map (week_entry insights) (enumerate 0 weekStarts)"

text \<open>
  The bucket of a week as the specification words it: the insights whose date lies in
  the seven days from the week start.
\<close>

definition spec_week_insights :: "instant \<Rightarrow> activity_insight list \<Rightarrow> activity_insight list" where
  "spec_week_insights weekStart insights =
     filter (\<lambda>insight. weekStart \<le> insightDate insight
                       \<and> insightDate insight < weekStart + 7 * ms_per_day) insights"

section \<open>The backing store\<close>

text \<open>
  Modelled from the spec: the Supabase client (module \<open>lib/supabase\<close>, which is not
  among the sources) and the relational store it talks to. These are the tables behind
  the client, with the \<open>UNIQUE\<close> constraints of the
  migration: \<open>(user_id, date)\<close> on \<open>sleep_records\<close> and \<open>activity_insights\<close>,
  \<open>(user_id, commit_hash)\<close> on \<open>commit_records\<close>. A query either reports an error
  or returns rows. \<open>reachable\<close> is whether requests get through at all;
  \<open>requests\<close> counts the round trips made so far.
\<close>

datatype db_error = Unreachable | UniqueViolation | NotSingleRow

record backend =
  sleep_records :: "sleep_record list"
  commit_records :: "commit_record list"
  activity_insights :: "activity_insight list"
  next_id :: nat
  reachable :: bool
  requests :: nat

definition round_trip :: "backend \<Rightarrow> backend" where
  "round_trip b = b\<lparr>requests := requests b + 1\<rparr>"

text \<open>\<open>.order(column, { ascending: false })\<close>.\<close>

definition order_desc :: "('a \<Rightarrow> int) \<Rightarrow> 'a list \<Rightarrow> 'a list" where
  "order_desc column rows = sort_key (\<lambda>r. - column r) rows"

text \<open>\<open>.single()\<close>: an error unless exactly one row came back.\<close>

definition single :: "'a list \<Rightarrow> db_error + 'a" where
  "single rows = (case rows of [r] \<Rightarrow> Inr r | _ \<Rightarrow> Inl NotSingleRow)"

subsection \<open>Queries on \<open>commit_records\<close>\<close>

definition select_commit_records ::
  "backend \<Rightarrow> string \<Rightarrow> instant \<Rightarrow> instant \<Rightarrow> (db_error + commit_record list) \<times> backend" where
  "select_commit_records b userId lo hi =
     (if \<not> reachable b then (Inl Unreachable, round_trip b)
      else (Inr (order_desc commit_timestamp
                   (filter (\<lambda>r. user_id r = userId \<and> lo \<le> commit_timestamp r
                                 \<and> commit_timestamp r \<le> hi) (commit_records b))),
            round_trip b))"

definition select_commit_timestamps ::
  "backend \<Rightarrow> string \<Rightarrow> instant \<Rightarrow> instant \<Rightarrow> (db_error + instant list) \<times> backend" where
  "select_commit_timestamps b userId lo hi =
     (if \<not> reachable b then (Inl Unreachable, round_trip b)
      else (Inr (map commit_timestamp
                   (filter (\<lambda>r. user_id r = userId \<and> lo \<le> commit_timestamp r
                                 \<and> commit_timestamp r \<le> hi) (commit_records b))),
            round_trip b))"

definition commit_conflict :: "backend \<Rightarrow> commit_record_insert \<Rightarrow> bool" where
  "commit_conflict b ins =
     (\<exists>r \<in> set (commit_records b). user_id r = user_id ins \<and> commit_hash r = commit_hash ins)"

definition insert_commit_record ::
  "backend \<Rightarrow> commit_record_insert \<Rightarrow> (db_error + commit_record) \<times> backend" where
  "insert_commit_record b ins =
     (if \<not> reachable b then (Inl Unreachable, round_trip b)
      else if commit_conflict b ins then (Inl UniqueViolation, round_trip b)
      else (let row = commit_record_insert.extend ins (commit_record.fields (next_id b))
            in (Inr row,
                round_trip (b\<lparr>commit_records := commit_records b @ [row],
                              next_id := next_id b + 1\<rparr>))))"

subsection \<open>Queries on \<open>sleep_records\<close>\<close>

definition select_sleep_records ::
  "backend \<Rightarrow> string \<Rightarrow> day \<Rightarrow> day \<Rightarrow> (db_error + sleep_record list) \<times> backend" where
  "select_sleep_records b userId lo hi =
     (if \<not> reachable b then (Inl Unreachable, round_trip b)
      else (Inr (order_desc date
                   (filter (\<lambda>r. user_id r = userId \<and> lo \<le> date r \<and> date r \<le> hi)
                      (sleep_records b))),
            round_trip b))"

definition sleep_conflict :: "sleep_record list \<Rightarrow> 'a dated_scheme \<Rightarrow> bool" where
  "sleep_conflict rows ins = (\<exists>r \<in> set rows. user_id r = user_id ins \<and> date r = date ins)"

definition insert_sleep_record ::
  "backend \<Rightarrow> sleep_record_insert \<Rightarrow> (db_error + sleep_record) \<times> backend" where
  "insert_sleep_record b ins =
     (if \<not> reachable b then (Inl Unreachable, round_trip b)
      else if sleep_conflict (sleep_records b) ins then (Inl UniqueViolation, round_trip b)
      else (let row = sleep_record_insert.extend ins (sleep_record.fields (next_id b))
            in (Inr row,
                round_trip (b\<lparr>sleep_records := sleep_records b @ [row],
                              next_id := next_id b + 1\<rparr>))))"

text \<open>
  \<open>.update(updates).eq('id', recordId).select().single()\<close>. The column assignments
  \<open>updates\<close> are a function on the row; the id column stays. No row with that id makes
  \<open>single\<close> fail and changes nothing.
\<close>

definition update_sleep_record ::
  "backend \<Rightarrow> nat \<Rightarrow> (sleep_record \<Rightarrow> sleep_record) \<Rightarrow> (db_error + sleep_record) \<times> backend" where
  "update_sleep_record b recordId updates =
     (if \<not> reachable b then (Inl Unreachable, round_trip b)
      else (case filter (\<lambda>r. sleep_id r = recordId) (sleep_records b) of
              [old] \<Rightarrow>
                (let row = (updates old)\<lparr>sleep_id := recordId\<rparr>;
                     others = filter (\<lambda>r. sleep_id r \<noteq> recordId) (sleep_records b)
                 in if sleep_conflict others row then (Inl UniqueViolation, round_trip b)
                    else (Inr row,
                          round_trip (b\<lparr>sleep_records :=
                             map (\<lambda>r. if sleep_id r = recordId then row else r)
                               (sleep_records b)\<rparr>)))
            | _ \<Rightarrow> (Inl NotSingleRow, round_trip b)))"

definition delete_sleep_record :: "backend \<Rightarrow> nat \<Rightarrow> db_error option \<times> backend" where
  "delete_sleep_record b recordId =
     (if \<not> reachable b then (Some Unreachable, round_trip b)
      else (None,
            round_trip (b\<lparr>sleep_records :=
               filter (\<lambda>r. sleep_id r \<noteq> recordId) (sleep_records b)\<rparr>)))"

subsection \<open>Queries on \<open>activity_insights\<close>\<close>

definition select_insights ::
  "backend \<Rightarrow> string \<Rightarrow> day \<Rightarrow> day \<Rightarrow> (db_error + activity_insight list) \<times> backend" where
  "select_insights b userId lo hi =
     (if \<not> reachable b then (Inl Unreachable, round_trip b)
      else (Inr (order_desc date
                   (filter (\<lambda>r. user_id r = userId \<and> lo \<le> date r \<and> date r \<le> hi)
                      (activity_insights b))),
            round_trip b))"

text \<open>\<open>.order('date', { ascending: false }).limit(1).single()\<close>.\<close>

definition select_latest_insight ::
  "backend \<Rightarrow> string \<Rightarrow> (db_error + activity_insight) \<times> backend" where
  "select_latest_insight b userId =
     (if \<not> reachable b then (Inl Unreachable, round_trip b)
      else (single (take 1 (order_desc date
                      (filter (\<lambda>r. user_id r = userId) (activity_insights b)))),
            round_trip b))"

definition insight_conflict :: "activity_insight list \<Rightarrow> 'a dated_scheme \<Rightarrow> bool" where
  "insight_conflict rows ins = (\<exists>r \<in> set rows. user_id r = user_id ins \<and> date r = date ins)"

text \<open>
  \<open>.upsert(insight)\<close> resolves conflicts on the primary key only. The payload carries
  no id, so the row gets a fresh one and the statement is an insert, which the
  \<open>UNIQUE (user_id, date)\<close> constraint can still reject.
\<close>

definition upsert_insight ::
  "backend \<Rightarrow> activity_insight_insert \<Rightarrow> (db_error + activity_insight) \<times> backend" where
  "upsert_insight b ins =
     (if \<not> reachable b then (Inl Unreachable, round_trip b)
      else if insight_conflict (activity_insights b) ins then (Inl UniqueViolation, round_trip b)
      else (let row = activity_insight_insert.extend ins (activity_insight.fields (next_id b))
            in (Inr row,
                round_trip (b\<lparr>activity_insights := activity_insights b @ [row],
                              next_id := next_id b + 1\<rparr>))))"

definition update_insight ::
  "backend \<Rightarrow> nat \<Rightarrow> (activity_insight \<Rightarrow> activity_insight)
     \<Rightarrow> (db_error + activity_insight) \<times> backend" where
  "update_insight b insightId updates =
     (if \<not> reachable b then (Inl Unreachable, round_trip b)
      else (case filter (\<lambda>r. insight_id r = insightId) (activity_insights b) of
              [old] \<Rightarrow>
                (let row = (updates old)\<lparr>insight_id := insightId\<rparr>;
                     others = filter (\<lambda>r. insight_id r \<noteq> insightId) (activity_insights b)
                 in if insight_conflict others row then (Inl UniqueViolation, round_trip b)
                    else (Inr row,
                          round_trip (b\<lparr>activity_insights :=
                             map (\<lambda>r. if insight_id r = insightId then row else r)
                               (activity_insights b)\<rparr>)))
            | _ \<Rightarrow> (Inl NotSingleRow, round_trip b)))"

section \<open>Record stores\<close>

text \<open>
  A service instance is its cache; the backing store and the console (the lines written
  with \<open>console.error\<close>) are what its methods act on. Each method takes the reading of
  \<open>Date.now()\<close> at its freshness check (\<open>now\<close>) and, for reads, the later reading
  taken when the cache is filled (\<open>later\<close>), and returns its result with the new state.
  A cache key is the tuple of values its template string is built from.
\<close>

record 'a cache_entry =
  data :: 'a
  timestamp :: instant

record 'c store =
  cache :: 'c
  db :: backend
  console :: "string list"

definition CACHE_DURATION :: int where
  "CACHE_DURATION = 5 * 60 * 1000"

text \<open>\<open>cached && Date.now() - cached.timestamp < this.CACHE_DURATION\<close>, giving the data.\<close>

definition cache_hit :: "instant \<Rightarrow> 'a cache_entry option \<Rightarrow> 'a option" where
  "cache_hit now cached =
     (case cached of
        None \<Rightarrow> None
      | Some c \<Rightarrow> if now - timestamp c < CACHE_DURATION then Some (data c) else None)"

subsection \<open>SleepService\<close>

type_synonym sleep_cache = "string \<times> instant \<times> instant \<rightharpoonup> sleep_record list cache_entry"

definition getSleepRecords ::
  "instant \<Rightarrow> instant \<Rightarrow> string \<Rightarrow> instant \<Rightarrow> instant \<Rightarrow> sleep_cache store
     \<Rightarrow> sleep_record list \<times> sleep_cache store" where
  "getSleepRecords now later userId startDate endDate st =
     (let cacheKey = (userId, startDate, endDate)
      in case cache_hit now (cache st cacheKey) of
           Some rows \<Rightarrow> (rows, st)
         | None \<Rightarrow>
             (case select_sleep_records (db st) userId (utc_date startDate) (utc_date endDate) of
                (Inl error, b) \<Rightarrow>
                  ([], st\<lparr>db := b, console := console st @ [''Error fetching sleep records:'']\<rparr>)
              | (Inr rows, b) \<Rightarrow>
                  (rows, st\<lparr>db := b,
                            cache := (cache st)(cacheKey \<mapsto> \<lparr>data = rows, timestamp = later\<rparr>)\<rparr>)))"

definition addSleepRecord ::
  "sleep_record_insert \<Rightarrow> sleep_cache store \<Rightarrow> sleep_record option \<times> sleep_cache store" where
  "addSleepRecord ins st =
     (case insert_sleep_record (db st) ins of
        (Inl error, b) \<Rightarrow>
          (None, st\<lparr>db := b, console := console st @ [''Error adding sleep record:'']\<rparr>)
      | (Inr row, b) \<Rightarrow> (Some row, st\<lparr>db := b, cache := Map.empty\<rparr>))"

definition updateSleepRecord ::
  "nat \<Rightarrow> (sleep_record \<Rightarrow> sleep_record) \<Rightarrow> sleep_cache store
     \<Rightarrow> sleep_record option \<times> sleep_cache store" where
  "updateSleepRecord recordId updates st =
     (case update_sleep_record (db st) recordId updates of
        (Inl error, b) \<Rightarrow>
          (None, st\<lparr>db := b, console := console st @ [''Error updating sleep record:'']\<rparr>)
      | (Inr row, b) \<Rightarrow> (Some row, st\<lparr>db := b, cache := Map.empty\<rparr>))"

definition deleteSleepRecord :: "nat \<Rightarrow> sleep_cache store \<Rightarrow> bool \<times> sleep_cache store" where
  "deleteSleepRecord recordId st =
     (case delete_sleep_record (db st) recordId of
        (Some error, b) \<Rightarrow>
          (False, st\<lparr>db := b, console := console st @ [''Error deleting sleep record:'']\<rparr>)
      | (None, b) \<Rightarrow> (True, st\<lparr>db := b, cache := Map.empty\<rparr>))"

subsection \<open>InsightService\<close>

text \<open>Keys \<open>`${userId}-${start}-${end}`\<close> and \<open>`latest-${userId}`\<close>.\<close>

datatype insight_key = RangeKey string instant instant | LatestKey string

type_synonym insight_cache = "insight_key \<rightharpoonup> activity_insight list cache_entry"

definition getInsights ::
  "instant \<Rightarrow> instant \<Rightarrow> string \<Rightarrow> instant \<Rightarrow> instant \<Rightarrow> insight_cache store
     \<Rightarrow> activity_insight list \<times> insight_cache store" where
  "getInsights now later userId startDate endDate st =
     (let cacheKey = RangeKey userId startDate endDate
      in case cache_hit now (cache st cacheKey) of
           Some rows \<Rightarrow> (rows, st)
         | None \<Rightarrow>
             (case select_insights (db st) userId (utc_date startDate) (utc_date endDate) of
                (Inl error, b) \<Rightarrow>
                  ([], st\<lparr>db := b, console := console st @ [''Error fetching insights:'']\<rparr>)
              | (Inr rows, b) \<Rightarrow>
                  (rows, st\<lparr>db := b,
                            cache := (cache st)(cacheKey \<mapsto> \<lparr>data = rows, timestamp = later\<rparr>)\<rparr>)))"

text \<open>On a hit the result is \<open>cached.data[0] || null\<close>.\<close>

definition getLatestInsight ::
  "instant \<Rightarrow> instant \<Rightarrow> string \<Rightarrow> insight_cache store
     \<Rightarrow> activity_insight option \<times> insight_cache store" where
  "getLatestInsight now later userId st =
     (let cacheKey = LatestKey userId
      in case cache_hit now (cache st cacheKey) of
           Some rows \<Rightarrow> (case rows of [] \<Rightarrow> None | r # _ \<Rightarrow> Some r, st)
         | None \<Rightarrow>
             (case select_latest_insight (db st) userId of
                (Inl error, b) \<Rightarrow>
                  (None, st\<lparr>db := b, console := console st @ [''Error fetching latest insight:'']\<rparr>)
              | (Inr row, b) \<Rightarrow>
                  (Some row,
                   st\<lparr>db := b,
                      cache := (cache st)(cacheKey \<mapsto> \<lparr>data = [row], timestamp = later\<rparr>)\<rparr>)))"

definition upsertInsight ::
  "activity_insight_insert \<Rightarrow> insight_cache store \<Rightarrow> activity_insight option \<times> insight_cache store"
  where
  "upsertInsight ins st =
     (case upsert_insight (db st) ins of
        (Inl error, b) \<Rightarrow>
          (None, st\<lparr>db := b, console := console st @ [''Error upserting insight:'']\<rparr>)
      | (Inr row, b) \<Rightarrow> (Some row, st\<lparr>db := b, cache := Map.empty\<rparr>))"

definition updateInsight ::
  "nat \<Rightarrow> (activity_insight \<Rightarrow> activity_insight) \<Rightarrow> insight_cache store
     \<Rightarrow> activity_insight option \<times> insight_cache store" where
  "updateInsight insightId updates st =
     (case update_insight (db st) insightId updates of
        (Inl error, b) \<Rightarrow>
          (None, st\<lparr>db := b, console := console st @ [''Error updating insight:'']\<rparr>)
      | (Inr row, b) \<Rightarrow> (Some row, st\<lparr>db := b, cache := Map.empty\<rparr>))"

subsection \<open>CommitService\<close>

text \<open>
  The one \<open>Map\<close> of the service holds two families of keys,
  \<open>`records-${userId}-${start}-${end}`\<close> and \<open>`stats-${userId}-${UTC date}`\<close>, which
  never coincide and hold different data; they are two maps here, and \<open>cache.clear()\<close>
  empties both.
\<close>

record commit_stats =
  count :: nat
  hours :: nat

record commit_cache =
  records_cache :: "string \<times> instant \<times> instant \<rightharpoonup> commit_record list cache_entry"
  stats_cache :: "string \<times> day \<rightharpoonup> commit_stats cache_entry"

definition cache_clear :: commit_cache where
  "cache_clear = \<lparr>records_cache = Map.empty, stats_cache = Map.empty\<rparr>"

definition getCommitRecords ::
  "instant \<Rightarrow> instant \<Rightarrow> string \<Rightarrow> instant \<Rightarrow> instant \<Rightarrow> commit_cache store
     \<Rightarrow> commit_record list \<times> commit_cache store" where
  "getCommitRecords now later userId startDate endDate st =
     (let cacheKey = (userId, startDate, endDate)
      in case cache_hit now (records_cache (cache st) cacheKey) of
           Some rows \<Rightarrow> (rows, st)
         | None \<Rightarrow>
             (case select_commit_records (db st) userId startDate endDate of
                (Inl error, b) \<Rightarrow>
                  ([], st\<lparr>db := b, console := console st @ [''Error fetching commit records:'']\<rparr>)
              | (Inr rows, b) \<Rightarrow>
                  (rows,
                   st\<lparr>db := b,
                      cache := (cache st)\<lparr>records_cache :=
                        (records_cache (cache st))
                          (cacheKey \<mapsto> \<lparr>data = rows, timestamp = later\<rparr>)\<rparr>\<rparr>)))"

text \<open>
  The key is built from the UTC date of the argument; the queried window runs from
  \<open>setHours(0, 0, 0, 0)\<close> to \<open>setHours(23, 59, 59, 999)\<close> of the argument, in local
  time. \<open>new Set(...).size\<close> counts the distinct hours.
\<close>

definition getCommitStats ::
  "int \<Rightarrow> instant \<Rightarrow> instant \<Rightarrow> string \<Rightarrow> instant \<Rightarrow> commit_cache store
     \<Rightarrow> commit_stats \<times> commit_cache store" where
  "getCommitStats tz now later userId d st =
     (let cacheKey = (userId, utc_date d)
      in case cache_hit now (stats_cache (cache st) cacheKey) of
           Some stats \<Rightarrow> (stats, st)
         | None \<Rightarrow>
             (let startOfDay = setHours tz d 0 0 0 0;
                  endOfDay = setHours tz d 23 59 59 999
              in case select_commit_timestamps (db st) userId startOfDay endOfDay of
                   (Inl error, b) \<Rightarrow>
                     (\<lparr>count = 0, hours = 0\<rparr>,
                      st\<lparr>db := b, console := console st @ [''Error fetching commit stats:'']\<rparr>)
                 | (Inr timestamps, b) \<Rightarrow>
                     (let uniqueHours = length (remdups (map (getHours tz) timestamps));
                          stats = \<lparr>count = length timestamps, hours = uniqueHours\<rparr>
                      in (stats,
                          st\<lparr>db := b,
                             cache := (cache st)\<lparr>stats_cache :=
                               (stats_cache (cache st))
                                 (cacheKey \<mapsto> \<lparr>data = stats, timestamp = later\<rparr>)\<rparr>\<rparr>))))"

definition addCommitRecord ::
  "commit_record_insert \<Rightarrow> commit_cache store \<Rightarrow> commit_record option \<times> commit_cache store"
  where
  "addCommitRecord ins st =
     (case insert_commit_record (db st) ins of
        (Inl error, b) \<Rightarrow>
          (None, st\<lparr>db := b, console := console st @ [''Error adding commit record:'']\<rparr>)
      | (Inr row, b) \<Rightarrow> (Some row, st\<lparr>db := b, cache := cache_clear\<rparr>))"

section \<open>GitHubService\<close>

text \<open>
  An activity event as the code reads it: \<open>type\<close>, \<open>created_at\<close>, \<open>repo.name\<close> and
  \<open>payload.commits\<close>, a field that may be absent.
\<close>

record commit_entry =
  message :: string
  sha :: string

record repo_ref =
  name :: string

record event_payload =
  commits :: "commit_entry list option"

record event =
  event_type :: "string option"
  created_at :: "instant option"
  repo :: repo_ref
  payload :: event_payload

text \<open>What a \<open>throw\<close> carries: an \<open>Error\<close> with its message, or some other value.\<close>

datatype thrown = Error string | NonError

record events_request =
  username :: string
  per_page :: nat
  since :: instant

text \<open>
  The hosting API as seen through the REST client bound to a token: the events it
  answers a request with, or what the client throws.
\<close>

type_synonym github_api = "string \<Rightarrow> events_request \<Rightarrow> thrown + event list"

record github_service =
  octokit :: "string option"
  initialized :: bool

text \<open>
  \<open>token\<close> is what \<open>getGitHubToken()\<close> returns; \<open>!token\<close> holds for \<open>null\<close> and
  for the empty string.
\<close>

definition initialize :: "string option \<Rightarrow> github_service \<Rightarrow> thrown + github_service" where
  "initialize token g =
     (if initialized g then Inr g
      else (case token of
              None \<Rightarrow> Inl (Error ''No GitHub token available'')
            | Some t \<Rightarrow>
                if t = [] then Inl (Error ''No GitHub token available'')
                else Inr (g\<lparr>octokit := Some t, initialized := True\<rparr>)))"

definition ensureInitialized ::
  "string option \<Rightarrow> github_service \<Rightarrow> thrown + string \<times> github_service" where
  "ensureInitialized token g =
     (case (if \<not> initialized g then initialize token g else Inr g) of
        Inl e \<Rightarrow> Inl e
      | Inr g' \<Rightarrow>
          (case octokit g' of
             None \<Rightarrow> Inl (Error ''GitHub client not initialized'')
           | Some client \<Rightarrow> Inr (client, g')))"

text \<open>The filter predicate: \<open>event.type === 'PushEvent' && 'commits' in event.payload\<close>.\<close>

definition is_commit_event :: "event \<Rightarrow> bool" where
  "is_commit_event e = (event_type e = Some ''PushEvent'' \<and> commits (payload e) \<noteq> None)"

definition getCommits ::
  "string option \<Rightarrow> github_api \<Rightarrow> instant \<Rightarrow> github_service
     \<Rightarrow> (thrown + event list) \<times> github_service" where
  "getCommits token api since_date g =
     (case ensureInitialized token g of
        Inl e \<Rightarrow> (Inl e, g)
      | Inr (client, g') \<Rightarrow>
          (case api client \<lparr>username = ''me'', per_page = 100, since = since_date\<rparr> of
             Inl (Error msg) \<Rightarrow> (Inl (Error (''Failed to fetch commits: '' @ msg)), g')
           | Inl NonError \<Rightarrow> (Inl (Error ''Failed to fetch commits''), g')
           | Inr events \<Rightarrow> (Inr (filter is_commit_event events), g')))"

section \<open>GitHubSyncService\<close>

text \<open>
  The inner loop of \<open>syncCommits\<close>: one \<open>addCommitRecord\<close> per commit entry of an
  event, its result ignored. \<open>commit.created_at || new Date().toISOString()\<close> falls back
  to the current time.
\<close>

fun add_commits ::
  "instant \<Rightarrow> string \<Rightarrow> event \<Rightarrow> commit_entry list \<Rightarrow> commit_cache store \<Rightarrow> commit_cache store"
  where
  "add_commits now userId commit [] st = st"
| "add_commits now userId commit (commitData # rest) st =
     add_commits now userId commit rest
       (snd (addCommitRecord
               \<lparr>user_id = userId,
                repository = name (repo commit),
                commit_hash = sha commitData,
                commit_message = Some (message commitData),
                commit_timestamp = (case created_at commit of Some t \<Rightarrow> t | None \<Rightarrow> now)\<rparr>
               st))"

text \<open>The outer loop, guarded by \<open>if (commit.payload.commits)\<close>.\<close>

fun process_commits ::
  "instant \<Rightarrow> string \<Rightarrow> event list \<Rightarrow> commit_cache store \<Rightarrow> commit_cache store" where
  "process_commits now userId [] st = st"
| "process_commits now userId (commit # rest) st =
     process_commits now userId rest
       (case commits (payload commit) of
          None \<Rightarrow> st
        | Some entries \<Rightarrow> add_commits now userId commit entries st)"

text \<open>
  \<open>syncCommits\<close> acts on the \<open>githubService\<close> singleton and on its own
  \<open>CommitService\<close> instance. Whatever \<open>getCommits\<close> throws is caught, logged and
  turned into \<open>false\<close>.
\<close>

definition syncCommits ::
  "instant \<Rightarrow> string \<Rightarrow> string option \<Rightarrow> github_api \<Rightarrow> github_service \<times> commit_cache store
     \<Rightarrow> bool \<times> github_service \<times> commit_cache store" where
  "syncCommits now userId token api gs =
     (let endDate = now;
          startDate = subDays endDate 30
      in case getCommits token api startDate (fst gs) of
           (Inl e, g) \<Rightarrow>
             (False, g, (snd gs)\<lparr>console := console (snd gs) @ [''Error syncing GitHub commits:'']\<rparr>)
         | (Inr events, g) \<Rightarrow> (True, g, process_commits now userId events (snd gs)))"

section \<open>The specification's wording of what the functions compute\<close>

text \<open>
  An event of kind "push" that carries a non-empty commit list, as the specification
  describes the events \<open>getCommits\<close> keeps.
\<close>

definition spec_push_event :: "event \<Rightarrow> bool" where
  "spec_push_event e =
     (event_type e = Some ''PushEvent''
      \<and> (case commits (payload e) of Some (c # cs) \<Rightarrow> True | _ \<Rightarrow> False))"

text \<open>The calendar day of an instant in local time.\<close>

definition local_day :: "int \<Rightarrow> instant \<Rightarrow> day" where
  "local_day tz d = (d + tz) div ms_per_day"

text \<open>
  The commit rows of a user whose timestamp falls within the calendar day of \<open>d\<close> in
  local time.
\<close>

definition commits_on_day :: "int \<Rightarrow> string \<Rightarrow> instant \<Rightarrow> backend \<Rightarrow> commit_record list" where
  "commits_on_day tz userId d b =
     filter (\<lambda>r. user_id r = userId \<and> local_day tz (commit_timestamp r) = local_day tz d)
       (commit_records b)"

text \<open>The invariant of \<open>commit_records\<close>: at most one row per (user id, commit hash).\<close>

definition commit_key :: "'a commit_record_insert_scheme \<Rightarrow> string \<times> string" where
  "commit_key r = (user_id r, commit_hash r)"

definition one_row_per_commit :: "backend \<Rightarrow> bool" where
  "one_row_per_commit b = distinct (map commit_key (commit_records b))"

definition commit_keys :: "backend \<Rightarrow> (string \<times> string) set" where
  "commit_keys b = set (map commit_key (commit_records b))"

text \<open>The (user id, commit hash) pairs that a synchronisation of these events inserts.\<close>

definition synced_keys :: "string \<Rightarrow> event list \<Rightarrow> (string \<times> string) set" where
  "synced_keys userId events =
     {(userId, sha c) | c e entries.
        e \<in> set events \<and> commits (payload e) = Some entries \<and> c \<in> set entries}"

text \<open>A reachable backing store that holds no rows, and one that cannot be reached.\<close>

definition no_rows :: backend where
  "no_rows = \<lparr>sleep_records = [], commit_records = [], activity_insights = [], next_id = 1,
              reachable = True, requests = 0\<rparr>"

definition offline :: backend where
  "offline = no_rows\<lparr>reachable := False\<rparr>"

section \<open>Example data\<close>

text \<open>
  September 2024 starts on a Sunday: day 19967 is 2024-09-01. Two insights of one user
  for 2024-09-03 and 2024-09-02, newest first, as \<open>getInsights\<close> orders them.
\<close>

definition sep3 :: activity_insight where
  "sep3 = \<lparr>user_id = ''u'', date = 19969, productivity_score = Some 90, sleep_score = Some 60,
           commit_count = 3, active_hours = 2, recommendations = None, insight_id = 2\<rparr>"

definition sep2 :: activity_insight where
  "sep2 = \<lparr>user_id = ''u'', date = 19968, productivity_score = Some 70, sleep_score = Some 80,
           commit_count = 4, active_hours = 1, recommendations = None, insight_id = 1\<rparr>"

text \<open>The week starts of September 2024 (Sundays, midnight, at offset 0).\<close>

definition september_weeks :: "instant list" where
  "september_weeks = map (\<lambda>d. d * ms_per_day) [19967, 19974, 19981, 19988, 19995]"

text \<open>A push event whose commit list is empty, and a client not yet bound to a token.\<close>

definition empty_push :: event where
  "empty_push = \<lparr>event_type = Some ''PushEvent'', created_at = Some 1725268200000,
                  repo = \<lparr>name = ''alpha''\<rparr>, payload = \<lparr>commits = Some []\<rparr>\<rparr>"

definition unbound_client :: github_service where
  "unbound_client = \<lparr>octokit = None, initialized = False\<rparr>"

text \<open>A hosting API that answers every request of every client with the same events.\<close>

definition bound_client :: github_service where
  "bound_client = \<lparr>octokit = Some ''token'', initialized = True\<rparr>"

definition answers_with :: "event list \<Rightarrow> github_api" where
  "answers_with events client request = Inr events"

text \<open>
  A sleep record for 2024-09-02 as the Sleep page submits it, the row the database made
  of it, and a backing store that holds that row.
\<close>

definition monday_night :: sleep_record_insert where
  "monday_night = \<lparr>user_id = ''u'', date = 19968, start_time = 1725314400000,
                    end_time = 1725343200000, duration_hours = 8, quality_score = Some 75,
                    sleep_notes = None\<rparr>"

definition stored_night :: sleep_record where
  "stored_night = \<lparr>user_id = ''u'', date = 19968, start_time = 1725314400000,
                    end_time = 1725343200000, duration_hours = 8, quality_score = Some 75,
                    sleep_notes = None, sleep_id = 1\<rparr>"

definition one_night :: backend where
  "one_night = no_rows\<lparr>sleep_records := [stored_night], next_id := 2\<rparr>"

text \<open>
  A \<open>SleepService\<close> that has cached, at time 1000, the answer \<open>[stored_night]\<close> to
  the range read of user \<open>u\<close> from instant 0 to instant 5.
\<close>

definition warm_sleep_store :: "backend \<Rightarrow> sleep_cache store" where
  "warm_sleep_store b =
     \<lparr>cache = [(''u'', 0, 5) \<mapsto> \<lparr>data = [stored_night], timestamp = 1000\<rparr>],
      db = b, console = []\<rparr>"

text \<open>A \<open>SleepService\<close> with nothing cached, in front of a given backing store.\<close>

definition cold_sleep_store :: "backend \<Rightarrow> sleep_cache store" where
  "cold_sleep_store b = \<lparr>cache = Map.empty, db = b, console = []\<rparr>"

text \<open>An \<open>InsightService\<close> with nothing cached, in front of a given backing store.\<close>

definition cold_insight_store :: "backend \<Rightarrow> insight_cache store" where
  "cold_insight_store b = \<lparr>cache = Map.empty, db = b, console = []\<rparr>"

text \<open>
  The \<open>SleepService\<close> after its first read, at time 0 with the cache filled at time
  1, of the sleep records of user \<open>u\<close> from 2024-09-01 to 2024-09-04, in front of the
  backing store that holds the one night. A sleep record for the next day, and the row
  the database makes of it there.
\<close>

definition first_read :: "sleep_cache store" where
  "first_read =
     snd (getSleepRecords 0 1 ''u'' 1725148800000 1725408000000 (cold_sleep_store one_night))"

definition tuesday_night :: sleep_record_insert where
  "tuesday_night = \<lparr>user_id = ''u'', date = 19969, start_time = 1725400800000,
                     end_time = 1725429600000, duration_hours = 8, quality_score = Some 80,
                     sleep_notes = None\<rparr>"

definition stored_tuesday :: sleep_record where
  "stored_tuesday = \<lparr>user_id = ''u'', date = 19969, start_time = 1725400800000,
                      end_time = 1725429600000, duration_hours = 8, quality_score = Some 80,
                      sleep_notes = None, sleep_id = 2\<rparr>"

text \<open>
  Three commits of user \<open>u\<close> on 2024-09-02 at 09:10, 09:40 and 10:05 local time,
  five hours behind UTC (offset \<open>-18000000\<close> ms), and a \<open>CommitService\<close> in front
  of a given backing store holding given statistics entries.
\<close>

definition commit_at :: "nat \<Rightarrow> string \<Rightarrow> instant \<Rightarrow> commit_record" where
  "commit_at n h t = \<lparr>user_id = ''u'', repository = ''alpha'', commit_hash = h,
                       commit_message = None, commit_timestamp = t, commit_id = n\<rparr>"

definition three_commits :: backend where
  "three_commits =
     no_rows\<lparr>commit_records := [commit_at 1 ''a1'' 1725286200000,
                                 commit_at 2 ''a2'' 1725288000000,
                                 commit_at 3 ''a3'' 1725289500000],
             next_id := 4\<rparr>"

text \<open>
  A statistics cache whose only entry, for user \<open>u\<close> and UTC date 2024-09-02, holds
  zero counts and was filled at 1725290000000.
\<close>

definition stale_stats :: "string \<times> day \<rightharpoonup> commit_stats cache_entry" where
  "stale_stats = [(''u'', 19968) \<mapsto> \<lparr>data = \<lparr>count = 0, hours = 0\<rparr>,
                                       timestamp = 1725290000000\<rparr>]"

definition no_stats :: "string \<times> day \<rightharpoonup> commit_stats cache_entry" where
  "no_stats = Map.empty"

definition commit_store ::
  "(string \<times> day \<rightharpoonup> commit_stats cache_entry) \<Rightarrow> backend \<Rightarrow> commit_cache store" where
  "commit_store stats b =
     \<lparr>cache = \<lparr>records_cache = Map.empty, stats_cache = stats\<rparr>, db = b, console = []\<rparr>"

text \<open>One push event with two commits in repository \<open>alpha\<close>.\<close>

definition push_two :: event where
  "push_two = \<lparr>event_type = Some ''PushEvent'', created_at = Some 1725286200000,
                repo = \<lparr>name = ''alpha''\<rparr>,
                payload = \<lparr>commits = Some [\<lparr>message = ''first'', sha = ''a1''\<rparr>,
                                             \<lparr>message = ''second'', sha = ''a2''\<rparr>]\<rparr>\<rparr>"

section \<open>Properties of the metrics\<close>

lemma spec_points_short: "length xs \<le> 1 \<Longrightarrow> spec_points xs = 0"
  by (cases xs rule: spec_points.cases) auto

lemma consistency_loop_stop:
  "\<not> i < length ds \<Longrightarrow> consistency_loop ds i s = s"
  by (subst consistency_loop.simps) simp

lemma consistency_loop_step:
  "i < length ds \<Longrightarrow>
     consistency_loop ds i s =
     consistency_loop ds (i + 1)
       (s + sleep_point (ds ! (i - 1)) (ds ! i)
          + productivity_point (ds ! (i - 1)) (ds ! i))"
  by (subst consistency_loop.simps)
     (simp add: Let_def sleep_point_def productivity_point_def)

lemma spec_points_drop:
  assumes "0 < i" "i < length ds"
  shows "spec_points (drop (i - 1) ds) =
           sleep_point (ds ! (i - 1)) (ds ! i)
           + productivity_point (ds ! (i - 1)) (ds ! i) + spec_points (drop i ds)"
proof -
  from assms have d: "drop (i - 1) ds = ds ! (i - 1) # drop i ds"
    by (metis Cons_nth_drop_Suc Suc_diff_1 less_imp_diff_less)
  from assms have d': "drop i ds = ds ! i # drop (Suc i) ds"
    by (simp add: Cons_nth_drop_Suc)
  show ?thesis
    by (simp only: d d' spec_points.simps)
qed

lemma consistency_loop_points:
  "0 < i \<Longrightarrow> consistency_loop ds i s = s + spec_points (drop (i - 1) ds)"
proof (induction "length ds - i" arbitrary: i s)
  case 0
  then have stop: "\<not> i < length ds" by simp
  then have "spec_points (drop (i - 1) ds) = 0"
    by (intro spec_points_short) simp
  with stop show ?case
    by (simp add: consistency_loop_stop)
next
  case (Suc n)
  then have less: "i < length ds" by simp
  have "consistency_loop ds (i + 1) s' = s' + spec_points (drop i ds)" for s'
    using Suc.hyps(1) [of "i + 1" s'] Suc.hyps(2) by simp
  then show ?case
    using spec_points_drop [OF Suc.prems less]
    by (simp only: consistency_loop_step [OF less])
qed

text \<open>
  C5. The consistency score of \<open>n\<close> daily insights is \<open>points / (2 (n - 1)) * 100\<close>,
  with one point per adjacent pair of days whose sleep scores differ by less than 20 in
  absolute value and one per adjacent pair whose productivity scores do; it is 0 for
  fewer than two days, and 100 for two days with the same two scores.
\<close>

theorem calculateConsistencyScore_spec:
  "calculateConsistencyScore ds = spec_consistency ds
   \<and> calculateConsistencyScore [] = 0
   \<and> calculateConsistencyScore [x] = 0
   \<and> (sleep_score a = sleep_score b \<and> productivity_score a = productivity_score b
        \<longrightarrow> calculateConsistencyScore [a, b] = 100)"
proof -
  have loop: "consistency_loop ds 1 0 = spec_points ds"
    for ds :: "activity_insight list"
    using consistency_loop_points [of 1 ds 0] by simp
  have eq: "calculateConsistencyScore ds = spec_consistency ds"
    for ds :: "activity_insight list"
    unfolding calculateConsistencyScore_def spec_consistency_def loop
    by (simp add: mult.commute)
  have two: "calculateConsistencyScore [a, b] = 100"
    if "sleep_score a = sleep_score b" "productivity_score a = productivity_score b"
    unfolding eq using that
    by (simp add: spec_consistency_def sleep_point_def productivity_point_def)
  have "calculateConsistencyScore ([] :: activity_insight list) = 0"
    "calculateConsistencyScore [x] = 0"
    by (simp_all add: calculateConsistencyScore_def)
  with eq two show ?thesis by blast
qed

theorem calculateConsistencyScore_spec_witness:
  "calculateConsistencyScore
     [\<lparr>user_id = ''u'', date = 1, productivity_score = Some 75, sleep_score = Some 80,
       commit_count = 2, active_hours = 1, recommendations = None, insight_id = 1\<rparr>,
      \<lparr>user_id = ''u'', date = 2, productivity_score = Some 75, sleep_score = Some 80,
       commit_count = 5, active_hours = 3, recommendations = None, insight_id = 2\<rparr>] = 100"
  using calculateConsistencyScore_spec
    [where ds = "[]" and a =
        "\<lparr>user_id = ''u'', date = 1, productivity_score = Some 75, sleep_score = Some 80,
          commit_count = 2, active_hours = 1, recommendations = None, insight_id = 1\<rparr>"
        and b = "\<lparr>user_id = ''u'', date = 2, productivity_score = Some 75, sleep_score = Some 80,
          commit_count = 5, active_hours = 3, recommendations = None, insight_id = 2\<rparr>"]
  by simp
text \<open>
  C6. The percentage change is \<open>(current - previous) / previous * 100\<close> when
  \<open>previous\<close> is not 0, and exactly 100 when \<open>previous\<close> is 0, whatever
  \<open>current\<close> is, 0 included.
\<close>

theorem getPercentageChange_spec:
  "(previous \<noteq> 0 \<longrightarrow>
      getPercentageChange current previous = (current - previous) / previous * 100)
   \<and> getPercentageChange current 0 = 100
   \<and> getPercentageChange 0 0 = 100"
  by (simp add: getPercentageChange_def)

theorem getPercentageChange_spec_witness:
  "(50::real) \<noteq> 0 \<and> getPercentageChange 75 50 = (75 - 50) / 50 * 100
   \<and> getPercentageChange 75 50 = 50"
  using getPercentageChange_spec [of 50 75] by simp


section \<open>Properties of the source activity client\<close>

text \<open>
  C8 (as amended). For every \<open>since\<close> timestamp, \<open>getCommits\<close>, once the client is
  bound to a token and the API answers, has asked for at most 100 events since that
  time and returns exactly the events whose type is \<open>PushEvent\<close> and whose payload has a
  \<open>commits\<close> field, whether that list is empty or not; events of any other type, and
  push events without the field, are excluded.
\<close>

theorem getCommits_keeps_push_events_with_commits_field:
  assumes "ensureInitialized token g = Inr (client, g')"
    and "api client \<lparr>username = ''me'', per_page = 100, since = since_date\<rparr> = Inr events"
  shows "\<exists>result. getCommits token api since_date g = (Inr result, g')
           \<and> result = filter (\<lambda>e. event_type e = Some ''PushEvent''
                                    \<and> commits (payload e) \<noteq> None) events
           \<and> (\<forall>e. e \<in> set result \<longleftrightarrow>
                  e \<in> set events \<and> event_type e = Some ''PushEvent''
                  \<and> (\<exists>entries. commits (payload e) = Some entries))"
proof -
  have eq: "is_commit_event = (\<lambda>e. event_type e = Some ''PushEvent''
                                    \<and> commits (payload e) \<noteq> None)"
    by (simp add: is_commit_event_def fun_eq_iff)
  have "getCommits token api since_date g = (Inr (filter is_commit_event events), g')"
    using assms by (simp add: getCommits_def)
  then show ?thesis
    by (auto simp: eq)
qed

theorem getCommits_keeps_push_events_with_commits_field_witness:
  "getCommits (Some ''token'') (answers_with [empty_push]) 0 unbound_client
     = (Inr [empty_push], bound_client)"
proof -
  have init: "ensureInitialized (Some ''token'') unbound_client = Inr (''token'', bound_client)"
    by (simp add: ensureInitialized_def initialize_def unbound_client_def bound_client_def)
  have answer: "answers_with [empty_push] ''token''
                  \<lparr>username = ''me'', per_page = 100, since = 0\<rparr> = Inr [empty_push]"
    by (simp add: answers_with_def)
  show ?thesis
    using getCommits_keeps_push_events_with_commits_field
            [where api = "answers_with [empty_push]" and since_date = 0
               and events = "[empty_push]", OF init answer]
    by (simp add: empty_push_def)
qed

text \<open>
  A push event whose commit list is empty is returned, where the claim as stated
  excludes it.
\<close>

theorem getCommits_empty_push_counterexample:
  "fst (getCommits (Some ''token'') (answers_with [empty_push]) 0 unbound_client)
     \<noteq> Inr (filter spec_push_event [empty_push])"
  by (simp add: getCommits_def ensureInitialized_def initialize_def unbound_client_def
        is_commit_event_def spec_push_event_def empty_push_def answers_with_def)

section \<open>Properties of the weekly report\<close>

text \<open>
  C2. The weekly report at the example month: the two insights of 2024-09-03 and
  2024-09-02 both lie in the week starting 2024-09-01, whose commit counts sum to 7. The
  filter callback moves the week start on after the first insight it accepts, so the
  second insight is in no bucket and the first week reports 3.
\<close>

theorem weeklyData_first_week_of_september:
  "map week_row.commits (weeklyData september_weeks [sep3, sep2]) = [3, 0, 0, 0, 0]
   \<and> spec_week_insights (september_weeks ! 0) [sep3, sep2] = [sep3, sep2]
   \<and> foldl (\<lambda>sum insight. sum + commit_count insight) 0
        (spec_week_insights (september_weeks ! 0) [sep3, sep2]) = 7
   \<and> sep2 \<notin> \<Union> (set (map (\<lambda>weekStart. set (weekInsights weekStart [sep3, sep2]))
                          september_weeks))"
  by (simp add: weeklyData_def week_entry_def september_weeks_def spec_week_insights_def
        sep3_def sep2_def insightDate_def ms_per_day_def div_or0_def)

section \<open>Properties of the record stores\<close>

subsection \<open>The three outcomes of each read\<close>

lemma getSleepRecords_hit:
  "cache_hit now (cache st (u, s, e)) = Some rows \<Longrightarrow>
     getSleepRecords now later u s e st = (rows, st)"
  by (simp add: getSleepRecords_def)

lemma getSleepRecords_fill:
  "cache_hit now (cache st (u, s, e)) = None \<Longrightarrow>
   select_sleep_records (db st) u (utc_date s) (utc_date e) = (Inr rows, b) \<Longrightarrow>
     getSleepRecords now later u s e st =
       (rows, st\<lparr>db := b, cache := (cache st)((u, s, e) \<mapsto> \<lparr>data = rows, timestamp = later\<rparr>)\<rparr>)"
  by (simp add: getSleepRecords_def)

lemma getSleepRecords_error:
  "cache_hit now (cache st (u, s, e)) = None \<Longrightarrow>
   select_sleep_records (db st) u (utc_date s) (utc_date e) = (Inl err, b) \<Longrightarrow>
     getSleepRecords now later u s e st =
       ([], st\<lparr>db := b, console := console st @ [''Error fetching sleep records:'']\<rparr>)"
  by (simp add: getSleepRecords_def)

lemma getCommitRecords_hit:
  "cache_hit now (records_cache (cache st) (u, s, e)) = Some rows \<Longrightarrow>
     getCommitRecords now later u s e st = (rows, st)"
  by (simp add: getCommitRecords_def)

lemma getCommitRecords_fill:
  "cache_hit now (records_cache (cache st) (u, s, e)) = None \<Longrightarrow>
   select_commit_records (db st) u s e = (Inr rows, b) \<Longrightarrow>
     getCommitRecords now later u s e st =
       (rows, st\<lparr>db := b,
                 cache := (cache st)\<lparr>records_cache :=
                   (records_cache (cache st))
                     ((u, s, e) \<mapsto> \<lparr>data = rows, timestamp = later\<rparr>)\<rparr>\<rparr>)"
  by (simp add: getCommitRecords_def)

lemma getCommitRecords_error:
  "cache_hit now (records_cache (cache st) (u, s, e)) = None \<Longrightarrow>
   select_commit_records (db st) u s e = (Inl err, b) \<Longrightarrow>
     getCommitRecords now later u s e st =
       ([], st\<lparr>db := b, console := console st @ [''Error fetching commit records:'']\<rparr>)"
  by (simp add: getCommitRecords_def)

lemma getCommitStats_hit:
  "cache_hit now (stats_cache (cache st) (u, utc_date d)) = Some stats \<Longrightarrow>
     getCommitStats tz now later u d st = (stats, st)"
  by (simp add: getCommitStats_def)

lemma getCommitStats_fill:
  "cache_hit now (stats_cache (cache st) (u, utc_date d)) = None \<Longrightarrow>
   select_commit_timestamps (db st) u (setHours tz d 0 0 0 0) (setHours tz d 23 59 59 999)
     = (Inr ts, b) \<Longrightarrow>
     getCommitStats tz now later u d st =
       (\<lparr>count = length ts, hours = length (remdups (map (getHours tz) ts))\<rparr>,
        st\<lparr>db := b,
           cache := (cache st)\<lparr>stats_cache :=
             (stats_cache (cache st))
               ((u, utc_date d) \<mapsto>
                  \<lparr>data = \<lparr>count = length ts,
                            hours = length (remdups (map (getHours tz) ts))\<rparr>,
                   timestamp = later\<rparr>)\<rparr>\<rparr>)"
  by (simp add: getCommitStats_def Let_def)

lemma getCommitStats_error:
  "cache_hit now (stats_cache (cache st) (u, utc_date d)) = None \<Longrightarrow>
   select_commit_timestamps (db st) u (setHours tz d 0 0 0 0) (setHours tz d 23 59 59 999)
     = (Inl err, b) \<Longrightarrow>
     getCommitStats tz now later u d st =
       (\<lparr>count = 0, hours = 0\<rparr>,
        st\<lparr>db := b, console := console st @ [''Error fetching commit stats:'']\<rparr>)"
  by (simp add: getCommitStats_def Let_def)

lemma getInsights_hit:
  "cache_hit now (cache st (RangeKey u s e)) = Some rows \<Longrightarrow>
     getInsights now later u s e st = (rows, st)"
  by (simp add: getInsights_def)

lemma getInsights_fill:
  "cache_hit now (cache st (RangeKey u s e)) = None \<Longrightarrow>
   select_insights (db st) u (utc_date s) (utc_date e) = (Inr rows, b) \<Longrightarrow>
     getInsights now later u s e st =
       (rows, st\<lparr>db := b,
                 cache := (cache st)(RangeKey u s e \<mapsto> \<lparr>data = rows, timestamp = later\<rparr>)\<rparr>)"
  by (simp add: getInsights_def)

lemma getInsights_error:
  "cache_hit now (cache st (RangeKey u s e)) = None \<Longrightarrow>
   select_insights (db st) u (utc_date s) (utc_date e) = (Inl err, b) \<Longrightarrow>
     getInsights now later u s e st =
       ([], st\<lparr>db := b, console := console st @ [''Error fetching insights:'']\<rparr>)"
  by (simp add: getInsights_def)

lemma getLatestInsight_hit:
  "cache_hit now (cache st (LatestKey u)) = Some rows \<Longrightarrow>
     getLatestInsight now later u st = (case rows of [] \<Rightarrow> None | r # _ \<Rightarrow> Some r, st)"
  by (simp add: getLatestInsight_def)

lemma getLatestInsight_fill:
  "cache_hit now (cache st (LatestKey u)) = None \<Longrightarrow>
   select_latest_insight (db st) u = (Inr row, b) \<Longrightarrow>
     getLatestInsight now later u st =
       (Some row, st\<lparr>db := b,
                     cache := (cache st)(LatestKey u \<mapsto> \<lparr>data = [row], timestamp = later\<rparr>)\<rparr>)"
  by (simp add: getLatestInsight_def)

lemma getLatestInsight_error:
  "cache_hit now (cache st (LatestKey u)) = None \<Longrightarrow>
   select_latest_insight (db st) u = (Inl err, b) \<Longrightarrow>
     getLatestInsight now later u st =
       (None, st\<lparr>db := b, console := console st @ [''Error fetching latest insight:'']\<rparr>)"
  by (simp add: getLatestInsight_def)

subsection \<open>The cache\<close>

lemma cache_hit_None [simp]: "cache_hit now None = None"
  by (simp add: cache_hit_def)

lemma cache_hit_entry:
  "cache_hit now (Some \<lparr>data = rows, timestamp = t\<rparr>) =
     (if now - t < CACHE_DURATION then Some rows else None)"
  by (simp add: cache_hit_def)

subsection \<open>The two outcomes of each write\<close>

lemma addSleepRecord_rejected:
  "insert_sleep_record (db st) ins = (Inl err, b) \<Longrightarrow>
     addSleepRecord ins st =
       (None, st\<lparr>db := b, console := console st @ [''Error adding sleep record:'']\<rparr>)"
  by (simp add: addSleepRecord_def)

lemma addSleepRecord_accepted:
  "insert_sleep_record (db st) ins = (Inr row, b) \<Longrightarrow>
     addSleepRecord ins st = (Some row, st\<lparr>db := b, cache := Map.empty\<rparr>)"
  by (simp add: addSleepRecord_def)

lemma updateSleepRecord_rejected:
  "update_sleep_record (db st) i f = (Inl err, b) \<Longrightarrow>
     updateSleepRecord i f st =
       (None, st\<lparr>db := b, console := console st @ [''Error updating sleep record:'']\<rparr>)"
  by (simp add: updateSleepRecord_def)

lemma updateSleepRecord_accepted:
  "update_sleep_record (db st) i f = (Inr row, b) \<Longrightarrow>
     updateSleepRecord i f st = (Some row, st\<lparr>db := b, cache := Map.empty\<rparr>)"
  by (simp add: updateSleepRecord_def)

lemma deleteSleepRecord_rejected:
  "delete_sleep_record (db st) i = (Some err, b) \<Longrightarrow>
     deleteSleepRecord i st =
       (False, st\<lparr>db := b, console := console st @ [''Error deleting sleep record:'']\<rparr>)"
  by (simp add: deleteSleepRecord_def)

lemma deleteSleepRecord_accepted:
  "delete_sleep_record (db st) i = (None, b) \<Longrightarrow>
     deleteSleepRecord i st = (True, st\<lparr>db := b, cache := Map.empty\<rparr>)"
  by (simp add: deleteSleepRecord_def)

lemma addCommitRecord_rejected:
  "insert_commit_record (db st) ins = (Inl err, b) \<Longrightarrow>
     addCommitRecord ins st =
       (None, st\<lparr>db := b, console := console st @ [''Error adding commit record:'']\<rparr>)"
  by (simp add: addCommitRecord_def)

lemma addCommitRecord_accepted:
  "insert_commit_record (db st) ins = (Inr row, b) \<Longrightarrow>
     addCommitRecord ins st = (Some row, st\<lparr>db := b, cache := cache_clear\<rparr>)"
  by (simp add: addCommitRecord_def)

lemma upsertInsight_rejected:
  "upsert_insight (db st) ins = (Inl err, b) \<Longrightarrow>
     upsertInsight ins st =
       (None, st\<lparr>db := b, console := console st @ [''Error upserting insight:'']\<rparr>)"
  by (simp add: upsertInsight_def)

lemma upsertInsight_accepted:
  "upsert_insight (db st) ins = (Inr row, b) \<Longrightarrow>
     upsertInsight ins st = (Some row, st\<lparr>db := b, cache := Map.empty\<rparr>)"
  by (simp add: upsertInsight_def)

lemma updateInsight_rejected:
  "update_insight (db st) i f = (Inl err, b) \<Longrightarrow>
     updateInsight i f st =
       (None, st\<lparr>db := b, console := console st @ [''Error updating insight:'']\<rparr>)"
  by (simp add: updateInsight_def)

lemma updateInsight_accepted:
  "update_insight (db st) i f = (Inr row, b) \<Longrightarrow>
     updateInsight i f st = (Some row, st\<lparr>db := b, cache := Map.empty\<rparr>)"
  by (simp add: updateInsight_def)

subsection \<open>Every query is one round trip\<close>

lemma select_sleep_records_trip: "snd (select_sleep_records b u lo hi) = round_trip b"
  by (simp add: select_sleep_records_def)

lemma select_commit_records_trip: "snd (select_commit_records b u lo hi) = round_trip b"
  by (simp add: select_commit_records_def)

lemma select_commit_timestamps_trip: "snd (select_commit_timestamps b u lo hi) = round_trip b"
  by (simp add: select_commit_timestamps_def)

lemma select_insights_trip: "snd (select_insights b u lo hi) = round_trip b"
  by (simp add: select_insights_def)

lemma select_latest_insight_trip: "snd (select_latest_insight b u) = round_trip b"
  by (simp add: select_latest_insight_def)

lemma requests_round_trip [simp]: "requests (round_trip b) = requests b + 1"
  by (simp add: round_trip_def)

text \<open>A pair is its two components: the form in which the outcome lemmas are used.\<close>

lemma pair_fst: "fst p = a \<Longrightarrow> p = (a, snd p)"
  by (cases p) simp

subsection \<open>Failed reads\<close>

text \<open>
  C7. For every read of a record store (\<open>getSleepRecords\<close>, \<open>getCommitRecords\<close>,
  \<open>getCommitStats\<close>, \<open>getInsights\<close>, \<open>getLatestInsight\<close>): when the read reaches
  the backing store and the backing store reports a failure, the failure is not passed
  on; the read writes a line to the console and returns the empty result (\<open>[]\<close> for a
  range read, \<open>null\<close> for the single-row read, zero counts for the statistics), leaving
  the cache as it was. The same call against a reachable store without rows returns the
  same value, so the caller cannot tell the two apart.
\<close>

theorem read_failure_degrades_to_empty:
  fixes ss :: "sleep_cache store" and cs :: "commit_cache store" and ins :: "insight_cache store"
  shows
  "(cache_hit now (cache ss (u, s, e)) = None
      \<and> fst (select_sleep_records (db ss) u (utc_date s) (utc_date e)) = Inl err \<longrightarrow>
      fst (getSleepRecords now later u s e ss) = []
      \<and> console (snd (getSleepRecords now later u s e ss))
          = console ss @ [''Error fetching sleep records:'']
      \<and> cache (snd (getSleepRecords now later u s e ss)) = cache ss
      \<and> fst (getSleepRecords now later u s e (ss\<lparr>db := no_rows\<rparr>)) = [])
   \<and> (cache_hit now (records_cache (cache cs) (u, s, e)) = None
      \<and> fst (select_commit_records (db cs) u s e) = Inl err \<longrightarrow>
      fst (getCommitRecords now later u s e cs) = []
      \<and> console (snd (getCommitRecords now later u s e cs))
          = console cs @ [''Error fetching commit records:'']
      \<and> cache (snd (getCommitRecords now later u s e cs)) = cache cs
      \<and> fst (getCommitRecords now later u s e (cs\<lparr>db := no_rows\<rparr>)) = [])
   \<and> (cache_hit now (stats_cache (cache cs) (u, utc_date d)) = None
      \<and> fst (select_commit_timestamps (db cs) u (setHours tz d 0 0 0 0)
                (setHours tz d 23 59 59 999)) = Inl err \<longrightarrow>
      fst (getCommitStats tz now later u d cs) = \<lparr>count = 0, hours = 0\<rparr>
      \<and> console (snd (getCommitStats tz now later u d cs))
          = console cs @ [''Error fetching commit stats:'']
      \<and> cache (snd (getCommitStats tz now later u d cs)) = cache cs
      \<and> fst (getCommitStats tz now later u d (cs\<lparr>db := no_rows\<rparr>)) = \<lparr>count = 0, hours = 0\<rparr>)
   \<and> (cache_hit now (cache ins (RangeKey u s e)) = None
      \<and> fst (select_insights (db ins) u (utc_date s) (utc_date e)) = Inl err \<longrightarrow>
      fst (getInsights now later u s e ins) = []
      \<and> console (snd (getInsights now later u s e ins))
          = console ins @ [''Error fetching insights:'']
      \<and> cache (snd (getInsights now later u s e ins)) = cache ins
      \<and> fst (getInsights now later u s e (ins\<lparr>db := no_rows\<rparr>)) = [])
   \<and> (cache_hit now (cache ins (LatestKey u)) = None
      \<and> fst (select_latest_insight (db ins) u) = Inl err \<longrightarrow>
      fst (getLatestInsight now later u ins) = None
      \<and> console (snd (getLatestInsight now later u ins))
          = console ins @ [''Error fetching latest insight:'']
      \<and> cache (snd (getLatestInsight now later u ins)) = cache ins
      \<and> fst (getLatestInsight now later u (ins\<lparr>db := no_rows\<rparr>)) = None)"
proof (intro conjI impI; elim conjE)
  assume miss: "cache_hit now (cache ss (u, s, e)) = None"
    and err: "fst (select_sleep_records (db ss) u (utc_date s) (utc_date e)) = Inl err"
  note out = getSleepRecords_error [OF miss pair_fst [OF err]]
  show "fst (getSleepRecords now later u s e ss) = []"
    "console (snd (getSleepRecords now later u s e ss))
       = console ss @ [''Error fetching sleep records:'']"
    "cache (snd (getSleepRecords now later u s e ss)) = cache ss"
    by (simp_all add: out)
  show "fst (getSleepRecords now later u s e (ss\<lparr>db := no_rows\<rparr>)) = []"
    using miss
    by (simp add: getSleepRecords_def select_sleep_records_def no_rows_def order_desc_def)
next
  assume miss: "cache_hit now (records_cache (cache cs) (u, s, e)) = None"
    and err: "fst (select_commit_records (db cs) u s e) = Inl err"
  note out = getCommitRecords_error [OF miss pair_fst [OF err]]
  show "fst (getCommitRecords now later u s e cs) = []"
    "console (snd (getCommitRecords now later u s e cs))
       = console cs @ [''Error fetching commit records:'']"
    "cache (snd (getCommitRecords now later u s e cs)) = cache cs"
    by (simp_all add: out)
  show "fst (getCommitRecords now later u s e (cs\<lparr>db := no_rows\<rparr>)) = []"
    using miss
    by (simp add: getCommitRecords_def select_commit_records_def no_rows_def order_desc_def)
next
  assume miss: "cache_hit now (stats_cache (cache cs) (u, utc_date d)) = None"
    and err: "fst (select_commit_timestamps (db cs) u (setHours tz d 0 0 0 0)
                (setHours tz d 23 59 59 999)) = Inl err"
  note out = getCommitStats_error [OF miss pair_fst [OF err]]
  show "fst (getCommitStats tz now later u d cs) = \<lparr>count = 0, hours = 0\<rparr>"
    "console (snd (getCommitStats tz now later u d cs))
       = console cs @ [''Error fetching commit stats:'']"
    "cache (snd (getCommitStats tz now later u d cs)) = cache cs"
    by (simp_all add: out)
  show "fst (getCommitStats tz now later u d (cs\<lparr>db := no_rows\<rparr>)) = \<lparr>count = 0, hours = 0\<rparr>"
    using miss
    by (simp add: getCommitStats_def select_commit_timestamps_def no_rows_def Let_def)
next
  assume miss: "cache_hit now (cache ins (RangeKey u s e)) = None"
    and err: "fst (select_insights (db ins) u (utc_date s) (utc_date e)) = Inl err"
  note out = getInsights_error [OF miss pair_fst [OF err]]
  show "fst (getInsights now later u s e ins) = []"
    "console (snd (getInsights now later u s e ins)) = console ins @ [''Error fetching insights:'']"
    "cache (snd (getInsights now later u s e ins)) = cache ins"
    by (simp_all add: out)
  show "fst (getInsights now later u s e (ins\<lparr>db := no_rows\<rparr>)) = []"
    using miss
    by (simp add: getInsights_def select_insights_def no_rows_def order_desc_def)
next
  assume miss: "cache_hit now (cache ins (LatestKey u)) = None"
    and err: "fst (select_latest_insight (db ins) u) = Inl err"
  note out = getLatestInsight_error [OF miss pair_fst [OF err]]
  show "fst (getLatestInsight now later u ins) = None"
    "console (snd (getLatestInsight now later u ins))
       = console ins @ [''Error fetching latest insight:'']"
    "cache (snd (getLatestInsight now later u ins)) = cache ins"
    by (simp_all add: out)
  show "fst (getLatestInsight now later u (ins\<lparr>db := no_rows\<rparr>)) = None"
    using miss
    by (simp add: getLatestInsight_def select_latest_insight_def no_rows_def order_desc_def
          single_def)
qed

theorem read_failure_degrades_to_empty_witness:
  "fst (getSleepRecords 0 1 ''u'' 0 5 (cold_sleep_store offline)) = []
   \<and> console (snd (getSleepRecords 0 1 ''u'' 0 5 (cold_sleep_store offline)))
       = [''Error fetching sleep records:'']
   \<and> fst (getCommitRecords 0 1 ''u'' 0 5 (commit_store no_stats offline)) = []
   \<and> fst (getCommitStats 0 0 1 ''u'' 5 (commit_store no_stats offline))
       = \<lparr>count = 0, hours = 0\<rparr>
   \<and> fst (getInsights 0 1 ''u'' 0 5 (cold_insight_store offline)) = []
   \<and> fst (getLatestInsight 0 1 ''u'' (cold_insight_store offline)) = None"
proof -
  have miss:
    "cache_hit 0 (cache (cold_sleep_store offline) (''u'', 0, 5)) = None"
    "cache_hit 0 (records_cache (cache (commit_store no_stats offline)) (''u'', 0, 5)) = None"
    "cache_hit 0 (stats_cache (cache (commit_store no_stats offline)) (''u'', utc_date 5)) = None"
    "cache_hit 0 (cache (cold_insight_store offline) (RangeKey ''u'' 0 5)) = None"
    "cache_hit 0 (cache (cold_insight_store offline) (LatestKey ''u'')) = None"
    by (simp_all add: cold_sleep_store_def commit_store_def cold_insight_store_def no_stats_def)
  have failure:
    "fst (select_sleep_records (db (cold_sleep_store offline)) ''u'' (utc_date 0) (utc_date 5))
       = Inl Unreachable"
    "fst (select_commit_records (db (commit_store no_stats offline)) ''u'' 0 5) = Inl Unreachable"
    "fst (select_commit_timestamps (db (commit_store no_stats offline)) ''u''
            (setHours 0 5 0 0 0 0) (setHours 0 5 23 59 59 999)) = Inl Unreachable"
    "fst (select_insights (db (cold_insight_store offline)) ''u'' (utc_date 0) (utc_date 5))
       = Inl Unreachable"
    "fst (select_latest_insight (db (cold_insight_store offline)) ''u'') = Inl Unreachable"
    by (simp_all add: cold_sleep_store_def commit_store_def cold_insight_store_def offline_def
          no_rows_def select_sleep_records_def select_commit_records_def
          select_commit_timestamps_def select_insights_def select_latest_insight_def)
  have quiet: "console (cold_sleep_store offline) = []"
    by (simp add: cold_sleep_store_def)
  show ?thesis
    using miss failure quiet
      read_failure_degrades_to_empty
        [where now = 0 and later = 1 and u = "''u''" and s = 0 and e = 5 and d = 5 and tz = 0
           and err = Unreachable and ss = "cold_sleep_store offline"
           and cs = "commit_store no_stats offline" and ins = "cold_insight_store offline"]
    by simp
qed

subsection \<open>Failed writes\<close>

text \<open>
  C9. \<open>addSleepRecord\<close>, \<open>addCommitRecord\<close> and \<open>upsertInsight\<close> clear the cache of
  their store only when the backing store accepts the write. When it rejects the write,
  the operation returns \<open>null\<close> and the cache map, with every entry and its timestamp,
  is what it was, so a read that the cache could serve before the write is served the
  same data after it. When it accepts the write, the cache is empty afterwards.
\<close>

theorem failed_write_keeps_cache:
  fixes ss :: "sleep_cache store" and cs :: "commit_cache store" and ins :: "insight_cache store"
  shows
  "(fst (insert_sleep_record (db ss) si) = Inl err \<longrightarrow>
      fst (addSleepRecord si ss) = None
      \<and> cache (snd (addSleepRecord si ss)) = cache ss
      \<and> (cache_hit now (cache ss (u, s, e)) = Some srows \<longrightarrow>
           fst (getSleepRecords now later u s e (snd (addSleepRecord si ss))) = srows))
   \<and> (fst (insert_sleep_record (db ss) si) = Inr srow \<longrightarrow>
      cache (snd (addSleepRecord si ss)) = Map.empty)
   \<and> (fst (insert_commit_record (db cs) ci) = Inl err \<longrightarrow>
      fst (addCommitRecord ci cs) = None
      \<and> cache (snd (addCommitRecord ci cs)) = cache cs
      \<and> (cache_hit now (records_cache (cache cs) (u, s, e)) = Some crows \<longrightarrow>
           fst (getCommitRecords now later u s e (snd (addCommitRecord ci cs))) = crows)
      \<and> (cache_hit now (stats_cache (cache cs) (u, utc_date d)) = Some stats \<longrightarrow>
           fst (getCommitStats tz now later u d (snd (addCommitRecord ci cs))) = stats))
   \<and> (fst (insert_commit_record (db cs) ci) = Inr crow \<longrightarrow>
      cache (snd (addCommitRecord ci cs)) = cache_clear)
   \<and> (fst (upsert_insight (db ins) ii) = Inl err \<longrightarrow>
      fst (upsertInsight ii ins) = None
      \<and> cache (snd (upsertInsight ii ins)) = cache ins
      \<and> (cache_hit now (cache ins (RangeKey u s e)) = Some irows \<longrightarrow>
           fst (getInsights now later u s e (snd (upsertInsight ii ins))) = irows)
      \<and> (cache_hit now (cache ins (LatestKey u)) = Some irows \<longrightarrow>
           fst (getLatestInsight now later u (snd (upsertInsight ii ins)))
             = (case irows of [] \<Rightarrow> None | r # _ \<Rightarrow> Some r)))
   \<and> (fst (upsert_insight (db ins) ii) = Inr irow \<longrightarrow>
      cache (snd (upsertInsight ii ins)) = Map.empty)"
proof (intro conjI impI)
  assume err: "fst (insert_sleep_record (db ss) si) = Inl err"
  note out = addSleepRecord_rejected [OF pair_fst [OF err]]
  show "fst (addSleepRecord si ss) = None" "cache (snd (addSleepRecord si ss)) = cache ss"
    by (simp_all add: out)
  show "fst (getSleepRecords now later u s e (snd (addSleepRecord si ss))) = srows"
    if "cache_hit now (cache ss (u, s, e)) = Some srows"
    using that by (simp add: out getSleepRecords_hit)
next
  assume "fst (insert_sleep_record (db ss) si) = Inr srow"
  then show "cache (snd (addSleepRecord si ss)) = Map.empty"
    by (simp add: addSleepRecord_accepted [OF pair_fst])
next
  assume err: "fst (insert_commit_record (db cs) ci) = Inl err"
  note out = addCommitRecord_rejected [OF pair_fst [OF err]]
  show "fst (addCommitRecord ci cs) = None" "cache (snd (addCommitRecord ci cs)) = cache cs"
    by (simp_all add: out)
  show "fst (getCommitRecords now later u s e (snd (addCommitRecord ci cs))) = crows"
    if "cache_hit now (records_cache (cache cs) (u, s, e)) = Some crows"
    using that by (simp add: out getCommitRecords_hit)
  show "fst (getCommitStats tz now later u d (snd (addCommitRecord ci cs))) = stats"
    if "cache_hit now (stats_cache (cache cs) (u, utc_date d)) = Some stats"
    using that by (simp add: out getCommitStats_hit)
next
  assume "fst (insert_commit_record (db cs) ci) = Inr crow"
  then show "cache (snd (addCommitRecord ci cs)) = cache_clear"
    by (simp add: addCommitRecord_accepted [OF pair_fst])
next
  assume err: "fst (upsert_insight (db ins) ii) = Inl err"
  note out = upsertInsight_rejected [OF pair_fst [OF err]]
  show "fst (upsertInsight ii ins) = None" "cache (snd (upsertInsight ii ins)) = cache ins"
    by (simp_all add: out)
  show "fst (getInsights now later u s e (snd (upsertInsight ii ins))) = irows"
    if "cache_hit now (cache ins (RangeKey u s e)) = Some irows"
    using that by (simp add: out getInsights_hit)
  show "fst (getLatestInsight now later u (snd (upsertInsight ii ins)))
          = (case irows of [] \<Rightarrow> None | r # _ \<Rightarrow> Some r)"
    if "cache_hit now (cache ins (LatestKey u)) = Some irows"
    using that by (simp add: out getLatestInsight_hit)
next
  assume "fst (upsert_insight (db ins) ii) = Inr irow"
  then show "cache (snd (upsertInsight ii ins)) = Map.empty"
    by (simp add: upsertInsight_accepted [OF pair_fst])
qed

theorem failed_write_keeps_cache_witness:
  "fst (insert_sleep_record one_night monday_night) = Inl UniqueViolation
   \<and> fst (addSleepRecord monday_night (warm_sleep_store one_night)) = None
   \<and> cache (snd (addSleepRecord monday_night (warm_sleep_store one_night)))
       = cache (warm_sleep_store one_night)
   \<and> fst (getSleepRecords 2000 2001 ''u'' 0 5
            (snd (addSleepRecord monday_night (warm_sleep_store one_night)))) = [stored_night]
   \<and> cache (snd (addSleepRecord monday_night (warm_sleep_store no_rows))) (''u'', 0, 5) = None"
proof -
  have rejected: "fst (insert_sleep_record one_night monday_night) = Inl UniqueViolation"
    by (simp add: insert_sleep_record_def one_night_def no_rows_def sleep_conflict_def
          monday_night_def stored_night_def)
  have accepted: "fst (insert_sleep_record no_rows monday_night) = Inr stored_night"
    by (simp add: insert_sleep_record_def no_rows_def sleep_conflict_def Let_def
          monday_night_def stored_night_def sleep_record_insert.defs sleep_record.defs)
  have hit: "cache_hit 2000 (cache (warm_sleep_store one_night) (''u'', 0, 5))
               = Some [stored_night]"
    by (simp add: warm_sleep_store_def cache_hit_def CACHE_DURATION_def)
  show ?thesis
    using rejected hit
      failed_write_keeps_cache
        [where ss = "warm_sleep_store one_night" and si = monday_night
           and err = UniqueViolation and now = 2000 and later = 2001 and u = "''u''"
           and s = 0 and e = 5 and srows = "[stored_night]"]
      failed_write_keeps_cache
        [where ss = "warm_sleep_store no_rows" and si = monday_night
           and srow = stored_night]
      accepted
    by (simp add: warm_sleep_store_def)
qed

subsection \<open>Two reads in a row\<close>

lemma cache_hit_filled:
  "now - later < CACHE_DURATION \<Longrightarrow>
     cache_hit now (Some \<lparr>data = rows, timestamp = later\<rparr>) = Some rows"
  by (simp add: cache_hit_def)

lemma getSleepRecords_twice:
  assumes miss: "cache_hit now1 (cache ss (u, s, e)) = None"
    and ok: "fst (select_sleep_records (db ss) u (utc_date s) (utc_date e)) = Inr rows"
    and window: "now2 - later1 < CACHE_DURATION"
  shows "fst (getSleepRecords now1 later1 u s e ss) = rows"
    and "getSleepRecords now2 later2 u s e (snd (getSleepRecords now1 later1 u s e ss))
           = (rows, snd (getSleepRecords now1 later1 u s e ss))"
    and "requests (db (snd (getSleepRecords now1 later1 u s e ss))) = requests (db ss) + 1"
proof -
  note out = getSleepRecords_fill [OF miss pair_fst [OF ok]]
  show "fst (getSleepRecords now1 later1 u s e ss) = rows"
    by (simp add: out)
  show "getSleepRecords now2 later2 u s e (snd (getSleepRecords now1 later1 u s e ss))
           = (rows, snd (getSleepRecords now1 later1 u s e ss))"
    by (simp add: out getSleepRecords_hit cache_hit_filled [OF window])
  show "requests (db (snd (getSleepRecords now1 later1 u s e ss))) = requests (db ss) + 1"
    by (simp add: out select_sleep_records_trip)
qed

lemma getCommitRecords_twice:
  assumes miss: "cache_hit now1 (records_cache (cache cs) (u, s, e)) = None"
    and ok: "fst (select_commit_records (db cs) u s e) = Inr rows"
    and window: "now2 - later1 < CACHE_DURATION"
  shows "fst (getCommitRecords now1 later1 u s e cs) = rows"
    and "getCommitRecords now2 later2 u s e (snd (getCommitRecords now1 later1 u s e cs))
           = (rows, snd (getCommitRecords now1 later1 u s e cs))"
    and "requests (db (snd (getCommitRecords now1 later1 u s e cs))) = requests (db cs) + 1"
proof -
  note out = getCommitRecords_fill [OF miss pair_fst [OF ok]]
  show "fst (getCommitRecords now1 later1 u s e cs) = rows"
    by (simp add: out)
  show "getCommitRecords now2 later2 u s e (snd (getCommitRecords now1 later1 u s e cs))
           = (rows, snd (getCommitRecords now1 later1 u s e cs))"
    by (simp add: out getCommitRecords_hit cache_hit_filled [OF window])
  show "requests (db (snd (getCommitRecords now1 later1 u s e cs))) = requests (db cs) + 1"
    by (simp add: out select_commit_records_trip)
qed

lemma getCommitStats_twice:
  assumes miss: "cache_hit now1 (stats_cache (cache cs) (u, utc_date d)) = None"
    and ok: "fst (select_commit_timestamps (db cs) u (setHours tz d 0 0 0 0)
                   (setHours tz d 23 59 59 999)) = Inr ts"
    and window: "now2 - later1 < CACHE_DURATION"
  shows "getCommitStats tz now2 later2 u d (snd (getCommitStats tz now1 later1 u d cs))
           = (fst (getCommitStats tz now1 later1 u d cs),
              snd (getCommitStats tz now1 later1 u d cs))"
    and "requests (db (snd (getCommitStats tz now1 later1 u d cs))) = requests (db cs) + 1"
proof -
  note out = getCommitStats_fill [OF miss pair_fst [OF ok]]
  show "getCommitStats tz now2 later2 u d (snd (getCommitStats tz now1 later1 u d cs))
           = (fst (getCommitStats tz now1 later1 u d cs),
              snd (getCommitStats tz now1 later1 u d cs))"
    by (simp add: out getCommitStats_hit cache_hit_filled [OF window])
  show "requests (db (snd (getCommitStats tz now1 later1 u d cs))) = requests (db cs) + 1"
    by (simp add: out select_commit_timestamps_trip)
qed

lemma getInsights_twice:
  assumes miss: "cache_hit now1 (cache ins (RangeKey u s e)) = None"
    and ok: "fst (select_insights (db ins) u (utc_date s) (utc_date e)) = Inr rows"
    and window: "now2 - later1 < CACHE_DURATION"
  shows "fst (getInsights now1 later1 u s e ins) = rows"
    and "getInsights now2 later2 u s e (snd (getInsights now1 later1 u s e ins))
           = (rows, snd (getInsights now1 later1 u s e ins))"
    and "requests (db (snd (getInsights now1 later1 u s e ins))) = requests (db ins) + 1"
proof -
  note out = getInsights_fill [OF miss pair_fst [OF ok]]
  show "fst (getInsights now1 later1 u s e ins) = rows"
    by (simp add: out)
  show "getInsights now2 later2 u s e (snd (getInsights now1 later1 u s e ins))
           = (rows, snd (getInsights now1 later1 u s e ins))"
    by (simp add: out getInsights_hit cache_hit_filled [OF window])
  show "requests (db (snd (getInsights now1 later1 u s e ins))) = requests (db ins) + 1"
    by (simp add: out select_insights_trip)
qed

lemma getLatestInsight_twice:
  assumes miss: "cache_hit now1 (cache ins (LatestKey u)) = None"
    and ok: "fst (select_latest_insight (db ins) u) = Inr row"
    and window: "now2 - later1 < CACHE_DURATION"
  shows "fst (getLatestInsight now1 later1 u ins) = Some row"
    and "getLatestInsight now2 later2 u (snd (getLatestInsight now1 later1 u ins))
           = (Some row, snd (getLatestInsight now1 later1 u ins))"
    and "requests (db (snd (getLatestInsight now1 later1 u ins))) = requests (db ins) + 1"
proof -
  note out = getLatestInsight_fill [OF miss pair_fst [OF ok]]
  show "fst (getLatestInsight now1 later1 u ins) = Some row"
    by (simp add: out)
  show "getLatestInsight now2 later2 u (snd (getLatestInsight now1 later1 u ins))
           = (Some row, snd (getLatestInsight now1 later1 u ins))"
    by (simp add: out getLatestInsight_hit cache_hit_filled [OF window])
  show "requests (db (snd (getLatestInsight now1 later1 u ins))) = requests (db ins) + 1"
    by (simp add: out select_latest_insight_trip)
qed

subsection \<open>A read from an empty cache\<close>

lemma getSleepRecords_bypass:
  assumes "cache ss = Map.empty"
  shows "requests (db (snd (getSleepRecords now later u s e ss))) = requests (db ss) + 1"
    and "fst (select_sleep_records (db ss) u (utc_date s) (utc_date e)) = Inr rows \<Longrightarrow>
           fst (getSleepRecords now later u s e ss) = rows
           \<and> cache (snd (getSleepRecords now later u s e ss))
               = [(u, s, e) \<mapsto> \<lparr>data = rows, timestamp = later\<rparr>]"
proof -
  have miss: "cache_hit now (cache ss (u, s, e)) = None"
    by (simp add: assms)
  show "requests (db (snd (getSleepRecords now later u s e ss))) = requests (db ss) + 1"
  proof (cases "fst (select_sleep_records (db ss) u (utc_date s) (utc_date e))")
    case (Inl err)
    then show ?thesis
      by (simp add: getSleepRecords_error [OF miss pair_fst] select_sleep_records_trip)
  next
    case (Inr rows)
    then show ?thesis
      by (simp add: getSleepRecords_fill [OF miss pair_fst] select_sleep_records_trip)
  qed
  show "fst (getSleepRecords now later u s e ss) = rows
           \<and> cache (snd (getSleepRecords now later u s e ss))
               = [(u, s, e) \<mapsto> \<lparr>data = rows, timestamp = later\<rparr>]"
    if "fst (select_sleep_records (db ss) u (utc_date s) (utc_date e)) = Inr rows"
    using that by (simp add: getSleepRecords_fill [OF miss pair_fst] assms)
qed

lemma getCommitRecords_bypass:
  assumes "cache cs = cache_clear"
  shows "requests (db (snd (getCommitRecords now later u s e cs))) = requests (db cs) + 1"
    and "fst (select_commit_records (db cs) u s e) = Inr rows \<Longrightarrow>
           fst (getCommitRecords now later u s e cs) = rows
           \<and> records_cache (cache (snd (getCommitRecords now later u s e cs)))
               = [(u, s, e) \<mapsto> \<lparr>data = rows, timestamp = later\<rparr>]"
proof -
  have miss: "cache_hit now (records_cache (cache cs) (u, s, e)) = None"
    by (simp add: assms cache_clear_def)
  show "requests (db (snd (getCommitRecords now later u s e cs))) = requests (db cs) + 1"
  proof (cases "fst (select_commit_records (db cs) u s e)")
    case (Inl err)
    then show ?thesis
      by (simp add: getCommitRecords_error [OF miss pair_fst] select_commit_records_trip)
  next
    case (Inr rows)
    then show ?thesis
      by (simp add: getCommitRecords_fill [OF miss pair_fst] select_commit_records_trip)
  qed
  show "fst (getCommitRecords now later u s e cs) = rows
           \<and> records_cache (cache (snd (getCommitRecords now later u s e cs)))
               = [(u, s, e) \<mapsto> \<lparr>data = rows, timestamp = later\<rparr>]"
    if "fst (select_commit_records (db cs) u s e) = Inr rows"
    using that by (simp add: getCommitRecords_fill [OF miss pair_fst] assms cache_clear_def)
qed

lemma getCommitStats_bypass:
  assumes "cache cs = cache_clear"
  shows "requests (db (snd (getCommitStats tz now later u d cs))) = requests (db cs) + 1"
    and "fst (select_commit_timestamps (db cs) u (setHours tz d 0 0 0 0)
               (setHours tz d 23 59 59 999)) = Inr ts \<Longrightarrow>
           stats_cache (cache (snd (getCommitStats tz now later u d cs)))
             = [(u, utc_date d) \<mapsto>
                  \<lparr>data = fst (getCommitStats tz now later u d cs), timestamp = later\<rparr>]"
proof -
  have miss: "cache_hit now (stats_cache (cache cs) (u, utc_date d)) = None"
    by (simp add: assms cache_clear_def)
  show "requests (db (snd (getCommitStats tz now later u d cs))) = requests (db cs) + 1"
  proof (cases "fst (select_commit_timestamps (db cs) u (setHours tz d 0 0 0 0)
               (setHours tz d 23 59 59 999))")
    case (Inl err)
    then show ?thesis
      by (simp add: getCommitStats_error [OF miss pair_fst] select_commit_timestamps_trip)
  next
    case (Inr rows)
    then show ?thesis
      by (simp add: getCommitStats_fill [OF miss pair_fst] select_commit_timestamps_trip)
  qed
  show "stats_cache (cache (snd (getCommitStats tz now later u d cs)))
             = [(u, utc_date d) \<mapsto>
                  \<lparr>data = fst (getCommitStats tz now later u d cs), timestamp = later\<rparr>]"
    if "fst (select_commit_timestamps (db cs) u (setHours tz d 0 0 0 0)
               (setHours tz d 23 59 59 999)) = Inr ts"
    using that by (simp add: getCommitStats_fill [OF miss pair_fst] assms cache_clear_def)
qed

lemma getInsights_bypass:
  assumes "cache ins = Map.empty"
  shows "requests (db (snd (getInsights now later u s e ins))) = requests (db ins) + 1"
    and "fst (select_insights (db ins) u (utc_date s) (utc_date e)) = Inr rows \<Longrightarrow>
           fst (getInsights now later u s e ins) = rows
           \<and> cache (snd (getInsights now later u s e ins))
               = [RangeKey u s e \<mapsto> \<lparr>data = rows, timestamp = later\<rparr>]"
proof -
  have miss: "cache_hit now (cache ins (RangeKey u s e)) = None"
    by (simp add: assms)
  show "requests (db (snd (getInsights now later u s e ins))) = requests (db ins) + 1"
  proof (cases "fst (select_insights (db ins) u (utc_date s) (utc_date e))")
    case (Inl err)
    then show ?thesis
      by (simp add: getInsights_error [OF miss pair_fst] select_insights_trip)
  next
    case (Inr rows)
    then show ?thesis
      by (simp add: getInsights_fill [OF miss pair_fst] select_insights_trip)
  qed
  show "fst (getInsights now later u s e ins) = rows
           \<and> cache (snd (getInsights now later u s e ins))
               = [RangeKey u s e \<mapsto> \<lparr>data = rows, timestamp = later\<rparr>]"
    if "fst (select_insights (db ins) u (utc_date s) (utc_date e)) = Inr rows"
    using that by (simp add: getInsights_fill [OF miss pair_fst] assms)
qed

lemma getLatestInsight_bypass:
  assumes "cache ins = Map.empty"
  shows "requests (db (snd (getLatestInsight now later u ins))) = requests (db ins) + 1"
    and "fst (select_latest_insight (db ins) u) = Inr row \<Longrightarrow>
           fst (getLatestInsight now later u ins) = Some row
           \<and> cache (snd (getLatestInsight now later u ins))
               = [LatestKey u \<mapsto> \<lparr>data = [row], timestamp = later\<rparr>]"
proof -
  have miss: "cache_hit now (cache ins (LatestKey u)) = None"
    by (simp add: assms)
  show "requests (db (snd (getLatestInsight now later u ins))) = requests (db ins) + 1"
  proof (cases "fst (select_latest_insight (db ins) u)")
    case (Inl err)
    then show ?thesis
      by (simp add: getLatestInsight_error [OF miss pair_fst] select_latest_insight_trip)
  next
    case (Inr rows)
    then show ?thesis
      by (simp add: getLatestInsight_fill [OF miss pair_fst] select_latest_insight_trip)
  qed
  show "fst (getLatestInsight now later u ins) = Some row
           \<and> cache (snd (getLatestInsight now later u ins))
               = [LatestKey u \<mapsto> \<lparr>data = [row], timestamp = later\<rparr>]"
    if "fst (select_latest_insight (db ins) u) = Inr row"
    using that by (simp add: getLatestInsight_fill [OF miss pair_fst] assms)
qed

subsection \<open>The cache between reads and writes\<close>

text \<open>
  C4 (as amended). For every record store: a read that the backing store answers fills
  the cache, and a read for the same key whose \<open>Date.now()\<close> is less than 5 minutes
  after that fill returns the cached result and leaves the state, the count of round
  trips included, as it was. Every write that the backing store accepts
  (\<open>addSleepRecord\<close>, \<open>updateSleepRecord\<close>, \<open>deleteSleepRecord\<close>,
  \<open>addCommitRecord\<close>, \<open>upsertInsight\<close>, \<open>updateInsight\<close>) empties the whole cache
  of its store, not just one key; a read from an emptied cache makes a round trip and,
  when the backing store answers, leaves its result as the only entry. Every write that
  the backing store rejects leaves the cache of its store as it was.
\<close>

theorem cache_serves_reads_until_accepted_write:
  fixes ss :: "sleep_cache store" and cs :: "commit_cache store" and ins :: "insight_cache store"
  shows
  "(cache_hit now (cache ss (u, s, e)) = None
      \<and> fst (select_sleep_records (db ss) u (utc_date s) (utc_date e)) = Inr srows
      \<and> now2 - later < CACHE_DURATION \<longrightarrow>
      fst (getSleepRecords now later u s e ss) = srows
      \<and> getSleepRecords now2 later2 u s e (snd (getSleepRecords now later u s e ss))
          = (srows, snd (getSleepRecords now later u s e ss)))
   \<and> (cache_hit now (records_cache (cache cs) (u, s, e)) = None
      \<and> fst (select_commit_records (db cs) u s e) = Inr crows
      \<and> now2 - later < CACHE_DURATION \<longrightarrow>
      fst (getCommitRecords now later u s e cs) = crows
      \<and> getCommitRecords now2 later2 u s e (snd (getCommitRecords now later u s e cs))
          = (crows, snd (getCommitRecords now later u s e cs)))
   \<and> (cache_hit now (stats_cache (cache cs) (u, utc_date d)) = None
      \<and> fst (select_commit_timestamps (db cs) u (setHours tz d 0 0 0 0)
                (setHours tz d 23 59 59 999)) = Inr ts
      \<and> now2 - later < CACHE_DURATION \<longrightarrow>
      getCommitStats tz now2 later2 u d (snd (getCommitStats tz now later u d cs))
          = (fst (getCommitStats tz now later u d cs),
             snd (getCommitStats tz now later u d cs)))
   \<and> (cache_hit now (cache ins (RangeKey u s e)) = None
      \<and> fst (select_insights (db ins) u (utc_date s) (utc_date e)) = Inr irows
      \<and> now2 - later < CACHE_DURATION \<longrightarrow>
      fst (getInsights now later u s e ins) = irows
      \<and> getInsights now2 later2 u s e (snd (getInsights now later u s e ins))
          = (irows, snd (getInsights now later u s e ins)))
   \<and> (cache_hit now (cache ins (LatestKey u)) = None
      \<and> fst (select_latest_insight (db ins) u) = Inr irow
      \<and> now2 - later < CACHE_DURATION \<longrightarrow>
      fst (getLatestInsight now later u ins) = Some irow
      \<and> getLatestInsight now2 later2 u (snd (getLatestInsight now later u ins))
          = (Some irow, snd (getLatestInsight now later u ins)))
   \<and> (fst (insert_sleep_record (db ss) si) = Inr srow \<longrightarrow>
        cache (snd (addSleepRecord si ss)) = Map.empty)
   \<and> (fst (update_sleep_record (db ss) sid supd) = Inr srow \<longrightarrow>
        cache (snd (updateSleepRecord sid supd ss)) = Map.empty)
   \<and> (fst (delete_sleep_record (db ss) sid) = None \<longrightarrow>
        cache (snd (deleteSleepRecord sid ss)) = Map.empty)
   \<and> (fst (insert_commit_record (db cs) ci) = Inr crow \<longrightarrow>
        records_cache (cache (snd (addCommitRecord ci cs))) = Map.empty
        \<and> stats_cache (cache (snd (addCommitRecord ci cs))) = Map.empty)
   \<and> (fst (upsert_insight (db ins) ii) = Inr irow \<longrightarrow>
        cache (snd (upsertInsight ii ins)) = Map.empty)
   \<and> (fst (update_insight (db ins) iid iupd) = Inr irow \<longrightarrow>
        cache (snd (updateInsight iid iupd ins)) = Map.empty)
   \<and> (fst (insert_sleep_record (db ss) si) = Inl err \<longrightarrow>
        cache (snd (addSleepRecord si ss)) = cache ss)
   \<and> (fst (update_sleep_record (db ss) sid supd) = Inl err \<longrightarrow>
        cache (snd (updateSleepRecord sid supd ss)) = cache ss)
   \<and> (fst (delete_sleep_record (db ss) sid) = Some err \<longrightarrow>
        cache (snd (deleteSleepRecord sid ss)) = cache ss)
   \<and> (fst (insert_commit_record (db cs) ci) = Inl err \<longrightarrow>
        cache (snd (addCommitRecord ci cs)) = cache cs)
   \<and> (fst (upsert_insight (db ins) ii) = Inl err \<longrightarrow>
        cache (snd (upsertInsight ii ins)) = cache ins)
   \<and> (fst (update_insight (db ins) iid iupd) = Inl err \<longrightarrow>
        cache (snd (updateInsight iid iupd ins)) = cache ins)
   \<and> (cache ss = Map.empty \<longrightarrow>
        requests (db (snd (getSleepRecords now later u s e ss))) = requests (db ss) + 1
        \<and> (fst (select_sleep_records (db ss) u (utc_date s) (utc_date e)) = Inr srows \<longrightarrow>
             fst (getSleepRecords now later u s e ss) = srows
             \<and> cache (snd (getSleepRecords now later u s e ss))
                 = [(u, s, e) \<mapsto> \<lparr>data = srows, timestamp = later\<rparr>]))
   \<and> (records_cache (cache cs) = Map.empty \<and> stats_cache (cache cs) = Map.empty \<longrightarrow>
        requests (db (snd (getCommitRecords now later u s e cs))) = requests (db cs) + 1
        \<and> (fst (select_commit_records (db cs) u s e) = Inr crows \<longrightarrow>
             fst (getCommitRecords now later u s e cs) = crows
             \<and> records_cache (cache (snd (getCommitRecords now later u s e cs)))
                 = [(u, s, e) \<mapsto> \<lparr>data = crows, timestamp = later\<rparr>])
        \<and> requests (db (snd (getCommitStats tz now later u d cs))) = requests (db cs) + 1
        \<and> (fst (select_commit_timestamps (db cs) u (setHours tz d 0 0 0 0)
                   (setHours tz d 23 59 59 999)) = Inr ts \<longrightarrow>
             stats_cache (cache (snd (getCommitStats tz now later u d cs)))
               = [(u, utc_date d) \<mapsto>
                    \<lparr>data = fst (getCommitStats tz now later u d cs), timestamp = later\<rparr>]))
   \<and> (cache ins = Map.empty \<longrightarrow>
        requests (db (snd (getInsights now later u s e ins))) = requests (db ins) + 1
        \<and> (fst (select_insights (db ins) u (utc_date s) (utc_date e)) = Inr irows \<longrightarrow>
             fst (getInsights now later u s e ins) = irows
             \<and> cache (snd (getInsights now later u s e ins))
                 = [RangeKey u s e \<mapsto> \<lparr>data = irows, timestamp = later\<rparr>])
        \<and> requests (db (snd (getLatestInsight now later u ins))) = requests (db ins) + 1
        \<and> (fst (select_latest_insight (db ins) u) = Inr irow \<longrightarrow>
             fst (getLatestInsight now later u ins) = Some irow
             \<and> cache (snd (getLatestInsight now later u ins))
                 = [LatestKey u \<mapsto> \<lparr>data = [irow], timestamp = later\<rparr>]))"
proof -
  have clear: "cache cs = cache_clear"
    if "records_cache (cache cs) = Map.empty" "stats_cache (cache cs) = Map.empty"
    using that by (simp add: cache_clear_def)
  have r1: "cache_hit now (cache ss (u, s, e)) = None
      \<and> fst (select_sleep_records (db ss) u (utc_date s) (utc_date e)) = Inr srows
      \<and> now2 - later < CACHE_DURATION \<longrightarrow>
      fst (getSleepRecords now later u s e ss) = srows
      \<and> getSleepRecords now2 later2 u s e (snd (getSleepRecords now later u s e ss))
          = (srows, snd (getSleepRecords now later u s e ss))"
    by (intro conjI impI; elim conjE) (simp_all add: getSleepRecords_twice)
  have r2: "cache_hit now (records_cache (cache cs) (u, s, e)) = None
      \<and> fst (select_commit_records (db cs) u s e) = Inr crows
      \<and> now2 - later < CACHE_DURATION \<longrightarrow>
      fst (getCommitRecords now later u s e cs) = crows
      \<and> getCommitRecords now2 later2 u s e (snd (getCommitRecords now later u s e cs))
          = (crows, snd (getCommitRecords now later u s e cs))"
    by (intro conjI impI; elim conjE) (simp_all add: getCommitRecords_twice)
  have r3: "cache_hit now (stats_cache (cache cs) (u, utc_date d)) = None
      \<and> fst (select_commit_timestamps (db cs) u (setHours tz d 0 0 0 0)
                (setHours tz d 23 59 59 999)) = Inr ts
      \<and> now2 - later < CACHE_DURATION \<longrightarrow>
      getCommitStats tz now2 later2 u d (snd (getCommitStats tz now later u d cs))
          = (fst (getCommitStats tz now later u d cs),
             snd (getCommitStats tz now later u d cs))"
    by (intro conjI impI; elim conjE) (simp_all add: getCommitStats_twice)
  have r4: "cache_hit now (cache ins (RangeKey u s e)) = None
      \<and> fst (select_insights (db ins) u (utc_date s) (utc_date e)) = Inr irows
      \<and> now2 - later < CACHE_DURATION \<longrightarrow>
      fst (getInsights now later u s e ins) = irows
      \<and> getInsights now2 later2 u s e (snd (getInsights now later u s e ins))
          = (irows, snd (getInsights now later u s e ins))"
    by (intro conjI impI; elim conjE) (simp_all add: getInsights_twice)
  have r5: "cache_hit now (cache ins (LatestKey u)) = None
      \<and> fst (select_latest_insight (db ins) u) = Inr irow
      \<and> now2 - later < CACHE_DURATION \<longrightarrow>
      fst (getLatestInsight now later u ins) = Some irow
      \<and> getLatestInsight now2 later2 u (snd (getLatestInsight now later u ins))
          = (Some irow, snd (getLatestInsight now later u ins))"
    by (intro conjI impI; elim conjE) (simp_all add: getLatestInsight_twice)
  have w1: "fst (insert_sleep_record (db ss) si) = Inr srow \<longrightarrow>
        cache (snd (addSleepRecord si ss)) = Map.empty"
    by (auto simp: addSleepRecord_accepted [OF pair_fst])
  have w2: "fst (update_sleep_record (db ss) sid supd) = Inr srow \<longrightarrow>
        cache (snd (updateSleepRecord sid supd ss)) = Map.empty"
    by (auto simp: updateSleepRecord_accepted [OF pair_fst])
  have w3: "fst (delete_sleep_record (db ss) sid) = None \<longrightarrow>
        cache (snd (deleteSleepRecord sid ss)) = Map.empty"
    by (auto simp: deleteSleepRecord_accepted [OF pair_fst])
  have w4: "fst (insert_commit_record (db cs) ci) = Inr crow \<longrightarrow>
        records_cache (cache (snd (addCommitRecord ci cs))) = Map.empty
        \<and> stats_cache (cache (snd (addCommitRecord ci cs))) = Map.empty"
    by (auto simp: addCommitRecord_accepted [OF pair_fst] cache_clear_def)
  have w5: "fst (upsert_insight (db ins) ii) = Inr irow \<longrightarrow>
        cache (snd (upsertInsight ii ins)) = Map.empty"
    by (auto simp: upsertInsight_accepted [OF pair_fst])
  have w6: "fst (update_insight (db ins) iid iupd) = Inr irow \<longrightarrow>
        cache (snd (updateInsight iid iupd ins)) = Map.empty"
    by (auto simp: updateInsight_accepted [OF pair_fst])
  have x1: "fst (insert_sleep_record (db ss) si) = Inl err \<longrightarrow>
        cache (snd (addSleepRecord si ss)) = cache ss"
    by (auto simp: addSleepRecord_rejected [OF pair_fst])
  have x2: "fst (update_sleep_record (db ss) sid supd) = Inl err \<longrightarrow>
        cache (snd (updateSleepRecord sid supd ss)) = cache ss"
    by (auto simp: updateSleepRecord_rejected [OF pair_fst])
  have x3: "fst (delete_sleep_record (db ss) sid) = Some err \<longrightarrow>
        cache (snd (deleteSleepRecord sid ss)) = cache ss"
    by (auto simp: deleteSleepRecord_rejected [OF pair_fst])
  have x4: "fst (insert_commit_record (db cs) ci) = Inl err \<longrightarrow>
        cache (snd (addCommitRecord ci cs)) = cache cs"
    by (auto simp: addCommitRecord_rejected [OF pair_fst])
  have x5: "fst (upsert_insight (db ins) ii) = Inl err \<longrightarrow>
        cache (snd (upsertInsight ii ins)) = cache ins"
    by (auto simp: upsertInsight_rejected [OF pair_fst])
  have x6: "fst (update_insight (db ins) iid iupd) = Inl err \<longrightarrow>
        cache (snd (updateInsight iid iupd ins)) = cache ins"
    by (auto simp: updateInsight_rejected [OF pair_fst])
  have n1: "cache ss = Map.empty \<longrightarrow>
        requests (db (snd (getSleepRecords now later u s e ss))) = requests (db ss) + 1
        \<and> (fst (select_sleep_records (db ss) u (utc_date s) (utc_date e)) = Inr srows \<longrightarrow>
             fst (getSleepRecords now later u s e ss) = srows
             \<and> cache (snd (getSleepRecords now later u s e ss))
                 = [(u, s, e) \<mapsto> \<lparr>data = srows, timestamp = later\<rparr>])"
    by (intro conjI impI) (simp_all add: getSleepRecords_bypass)
  have n2: "records_cache (cache cs) = Map.empty \<and> stats_cache (cache cs) = Map.empty \<longrightarrow>
        requests (db (snd (getCommitRecords now later u s e cs))) = requests (db cs) + 1
        \<and> (fst (select_commit_records (db cs) u s e) = Inr crows \<longrightarrow>
             fst (getCommitRecords now later u s e cs) = crows
             \<and> records_cache (cache (snd (getCommitRecords now later u s e cs)))
                 = [(u, s, e) \<mapsto> \<lparr>data = crows, timestamp = later\<rparr>])
        \<and> requests (db (snd (getCommitStats tz now later u d cs))) = requests (db cs) + 1
        \<and> (fst (select_commit_timestamps (db cs) u (setHours tz d 0 0 0 0)
                   (setHours tz d 23 59 59 999)) = Inr ts \<longrightarrow>
             stats_cache (cache (snd (getCommitStats tz now later u d cs)))
               = [(u, utc_date d) \<mapsto>
                    \<lparr>data = fst (getCommitStats tz now later u d cs), timestamp = later\<rparr>])"
  proof (intro impI)
    assume "records_cache (cache cs) = Map.empty \<and> stats_cache (cache cs) = Map.empty"
    then have c: "cache cs = cache_clear"
      using clear by simp
    show "requests (db (snd (getCommitRecords now later u s e cs))) = requests (db cs) + 1
        \<and> (fst (select_commit_records (db cs) u s e) = Inr crows \<longrightarrow>
             fst (getCommitRecords now later u s e cs) = crows
             \<and> records_cache (cache (snd (getCommitRecords now later u s e cs)))
                 = [(u, s, e) \<mapsto> \<lparr>data = crows, timestamp = later\<rparr>])
        \<and> requests (db (snd (getCommitStats tz now later u d cs))) = requests (db cs) + 1
        \<and> (fst (select_commit_timestamps (db cs) u (setHours tz d 0 0 0 0)
                   (setHours tz d 23 59 59 999)) = Inr ts \<longrightarrow>
             stats_cache (cache (snd (getCommitStats tz now later u d cs)))
               = [(u, utc_date d) \<mapsto>
                    \<lparr>data = fst (getCommitStats tz now later u d cs), timestamp = later\<rparr>])"
      by (intro conjI impI)
         (simp_all add: getCommitRecords_bypass [OF c] getCommitStats_bypass [OF c])
  qed
  have n3: "cache ins = Map.empty \<longrightarrow>
        requests (db (snd (getInsights now later u s e ins))) = requests (db ins) + 1
        \<and> (fst (select_insights (db ins) u (utc_date s) (utc_date e)) = Inr irows \<longrightarrow>
             fst (getInsights now later u s e ins) = irows
             \<and> cache (snd (getInsights now later u s e ins))
                 = [RangeKey u s e \<mapsto> \<lparr>data = irows, timestamp = later\<rparr>])
        \<and> requests (db (snd (getLatestInsight now later u ins))) = requests (db ins) + 1
        \<and> (fst (select_latest_insight (db ins) u) = Inr irow \<longrightarrow>
             fst (getLatestInsight now later u ins) = Some irow
             \<and> cache (snd (getLatestInsight now later u ins))
                 = [LatestKey u \<mapsto> \<lparr>data = [irow], timestamp = later\<rparr>])"
    by (intro conjI impI) (simp_all add: getInsights_bypass getLatestInsight_bypass)
  from r1 r2 r3 r4 r5 w1 w2 w3 w4 w5 w6 x1 x2 x3 x4 x5 x6 n1 n2 n3 show ?thesis
    by (intro conjI)
qed

text \<open>The state after the first read, and the two writes tried on it.\<close>

lemma first_read_state:
  "first_read =
     \<lparr>cache = [(''u'', 1725148800000, 1725408000000) \<mapsto>
                 \<lparr>data = [stored_night], timestamp = 1\<rparr>],
      db = round_trip one_night, console = []\<rparr>"
proof -
  have miss: "cache_hit 0 (cache (cold_sleep_store one_night)
                (''u'', 1725148800000, 1725408000000)) = None"
    by (simp add: cold_sleep_store_def)
  have answered: "select_sleep_records (db (cold_sleep_store one_night)) ''u''
                    (utc_date 1725148800000) (utc_date 1725408000000)
                  = (Inr [stored_night], round_trip one_night)"
    by (simp add: cold_sleep_store_def select_sleep_records_def one_night_def no_rows_def
          order_desc_def utc_date_def ms_per_day_def stored_night_def)
  show ?thesis
    unfolding first_read_def getSleepRecords_fill [OF miss answered]
    by (simp add: cold_sleep_store_def)
qed

lemma first_read_rejects_monday:
  "insert_sleep_record (db first_read) monday_night
     = (Inl UniqueViolation, round_trip (round_trip one_night))"
  unfolding first_read_state
  by (simp add: insert_sleep_record_def round_trip_def one_night_def no_rows_def
        sleep_conflict_def monday_night_def stored_night_def)

lemma first_read_accepts_tuesday:
  "fst (insert_sleep_record (db first_read) tuesday_night) = Inr stored_tuesday"
  unfolding first_read_state
  by (simp add: insert_sleep_record_def round_trip_def one_night_def no_rows_def
        sleep_conflict_def Let_def tuesday_night_def stored_tuesday_def stored_night_def
        sleep_record_insert.defs sleep_record.defs)

theorem cache_serves_reads_until_accepted_write_witness:
  "fst (getSleepRecords 0 1 ''u'' 1725148800000 1725408000000 (cold_sleep_store one_night))
     = [stored_night]
   \<and> getSleepRecords 60000 60001 ''u'' 1725148800000 1725408000000 first_read
       = ([stored_night], first_read)
   \<and> requests (db first_read) = 1
   \<and> cache (snd (addSleepRecord monday_night first_read)) = cache first_read
   \<and> cache (snd (addSleepRecord tuesday_night first_read))
        (''u'', 1725148800000, 1725408000000) = None
   \<and> requests (db (snd (getSleepRecords 120000 120001 ''u'' 1725148800000 1725408000000
                           (snd (addSleepRecord tuesday_night first_read)))))
       = requests (db (snd (addSleepRecord tuesday_night first_read))) + 1"
proof -
  have miss: "cache_hit 0 (cache (cold_sleep_store one_night)
                (''u'', 1725148800000, 1725408000000)) = None"
    by (simp add: cold_sleep_store_def)
  have answered: "fst (select_sleep_records (db (cold_sleep_store one_night)) ''u''
                    (utc_date 1725148800000) (utc_date 1725408000000)) = Inr [stored_night]"
    by (simp add: cold_sleep_store_def select_sleep_records_def one_night_def no_rows_def
          order_desc_def utc_date_def ms_per_day_def stored_night_def)
  have window: "(60000::int) - 1 < CACHE_DURATION"
    by (simp add: CACHE_DURATION_def)
  have trips: "requests (db first_read) = 1"
    unfolding first_read_state by (simp add: round_trip_def one_night_def no_rows_def)
  have rejected: "fst (insert_sleep_record (db first_read) monday_night) = Inl UniqueViolation"
    by (simp add: first_read_rejects_monday)
  note twice = cache_serves_reads_until_accepted_write
        [where ss = "cold_sleep_store one_night" and now = 0 and later = 1 and u = "''u''"
           and s = 1725148800000 and e = 1725408000000 and srows = "[stored_night]"
           and ?now2.0 = 60000 and ?later2.0 = 60001]
  note writes = cache_serves_reads_until_accepted_write
        [where ss = first_read and si = monday_night and err = UniqueViolation]
  note cleared = cache_serves_reads_until_accepted_write
        [where ss = first_read and si = tuesday_night and srow = stored_tuesday]
  note bypass = cache_serves_reads_until_accepted_write
        [where ss = "snd (addSleepRecord tuesday_night first_read)" and now = 120000
           and later = 120001 and u = "''u''" and s = 1725148800000 and e = 1725408000000]
  from twice miss answered window
  have r: "fst (getSleepRecords 0 1 ''u'' 1725148800000 1725408000000
                  (cold_sleep_store one_night)) = [stored_night]"
    "getSleepRecords 60000 60001 ''u'' 1725148800000 1725408000000 first_read
       = ([stored_night], first_read)"
    unfolding first_read_def by simp_all
  from writes rejected
  have x: "cache (snd (addSleepRecord monday_night first_read)) = cache first_read"
    by simp
  from cleared first_read_accepts_tuesday
  have w: "cache (snd (addSleepRecord tuesday_night first_read)) = Map.empty"
    by simp
  with bypass
  have n: "requests (db (snd (getSleepRecords 120000 120001 ''u'' 1725148800000 1725408000000
                           (snd (addSleepRecord tuesday_night first_read)))))
       = requests (db (snd (addSleepRecord tuesday_night first_read))) + 1"
    by simp
  from r trips x w n show ?thesis
    by simp
qed

text \<open>
  A write that the backing store rejects (here a second sleep record for a date that
  already has one, after a read has filled the cache) does not clear the cache, and the
  next read is served from it without a round trip: two requests in all, the first read
  and the rejected insert.
\<close>

theorem rejected_write_keeps_cache_counterexample:
  "cache (snd (addSleepRecord monday_night first_read)) (''u'', 1725148800000, 1725408000000)
     = Some \<lparr>data = [stored_night], timestamp = 1\<rparr>
   \<and> fst (getSleepRecords 60000 60001 ''u'' 1725148800000 1725408000000
            (snd (addSleepRecord monday_night first_read))) = [stored_night]
   \<and> requests (db (snd (getSleepRecords 60000 60001 ''u'' 1725148800000 1725408000000
                           (snd (addSleepRecord monday_night first_read))))) = 2"
proof -
  have after: "snd (addSleepRecord monday_night first_read)
                 = first_read\<lparr>db := round_trip (round_trip one_night),
                              console := console first_read @ [''Error adding sleep record:'']\<rparr>"
    by (simp add: addSleepRecord_rejected [OF first_read_rejects_monday])
  have kept: "cache (snd (addSleepRecord monday_night first_read))
                (''u'', 1725148800000, 1725408000000)
              = Some \<lparr>data = [stored_night], timestamp = 1\<rparr>"
    unfolding after by (simp add: first_read_state)
  have hit: "cache_hit 60000 (cache (snd (addSleepRecord monday_night first_read))
               (''u'', 1725148800000, 1725408000000)) = Some [stored_night]"
    unfolding kept by (simp add: cache_hit_def CACHE_DURATION_def)
  have trips: "requests (db (snd (addSleepRecord monday_night first_read))) = 2"
    unfolding after by (simp add: round_trip_def one_night_def no_rows_def)
  from kept trips show ?thesis
    by (simp add: getSleepRecords_hit [OF hit])
qed

subsection \<open>Commit statistics\<close>

lemma day_window:
  fixes x y n :: int
  assumes "0 < n"
  shows "x - x mod n \<le> y \<and> y \<le> x - x mod n + (n - 1) \<longleftrightarrow> y div n = x div n"
proof -
  have start: "x - x mod n = n * (x div n)"
    by (simp add: minus_mod_eq_mult_div)
  show ?thesis
  proof
    assume "x - x mod n \<le> y \<and> y \<le> x - x mod n + (n - 1)"
    then have "0 \<le> y - n * (x div n)" "y - n * (x div n) < n"
      by (simp_all add: start)
    moreover have "y = n * (x div n) + (y - n * (x div n))"
      by simp
    ultimately show "y div n = x div n"
      by (rule int_div_pos_eq [where r = "y - n * (x div n)", rotated])
  next
    assume eq: "y div n = x div n"
    have "y = n * (y div n) + y mod n"
      by simp
    moreover have "0 \<le> y mod n" "y mod n < n"
      using assms by simp_all
    ultimately show "x - x mod n \<le> y \<and> y \<le> x - x mod n + (n - 1)"
      unfolding start eq [symmetric] by linarith
  qed
qed

lemma local_day_window:
  "setHours tz d 0 0 0 0 \<le> t \<and> t \<le> setHours tz d 23 59 59 999
     \<longleftrightarrow> local_day tz t = local_day tz d"
proof -
  define m where "m = (d + tz) mod ms_per_day"
  have window: "(d + tz) - m \<le> t + tz \<and> t + tz \<le> (d + tz) - m + (ms_per_day - 1)
        \<longleftrightarrow> (t + tz) div ms_per_day = (d + tz) div ms_per_day"
    unfolding m_def by (rule day_window) (simp add: ms_per_day_def)
  have "setHours tz d 0 0 0 0 = d - m" "setHours tz d 23 59 59 999 = d - m + (ms_per_day - 1)"
    by (simp_all add: setHours_def m_def ms_per_day_def ms_per_hour_def)
  then have "setHours tz d 0 0 0 0 \<le> t \<and> t \<le> setHours tz d 23 59 59 999
        \<longleftrightarrow> (d + tz) - m \<le> t + tz \<and> t + tz \<le> (d + tz) - m + (ms_per_day - 1)"
    by linarith
  with window show ?thesis
    by (simp only: local_day_def)
qed

lemma select_commit_timestamps_day:
  assumes "reachable b"
  shows "select_commit_timestamps b u (setHours tz d 0 0 0 0) (setHours tz d 23 59 59 999)
           = (Inr (map commit_timestamp (commits_on_day tz u d b)), round_trip b)"
proof -
  have "filter (\<lambda>r. user_id r = u \<and> setHours tz d 0 0 0 0 \<le> commit_timestamp r
                      \<and> commit_timestamp r \<le> setHours tz d 23 59 59 999) (commit_records b)
          = commits_on_day tz u d b"
    unfolding commits_on_day_def
    by (rule filter_cong [OF refl]) (simp add: local_day_window)
  with assms show ?thesis
    by (simp add: select_commit_timestamps_def)
qed

text \<open>
  C3 (as amended). For every user and date: when no fresh cache entry stands under the
  key and the backing store answers, \<open>getCommitStats\<close> returns \<open>count\<close> = the number
  of commit rows of the user whose timestamp falls within the calendar day of the date in
  local time, and \<open>hours\<close> = the number of distinct hours of day among those
  timestamps; three commits at 09:10, 09:40 and 10:05 of one day give \<open>count = 3\<close>,
  \<open>hours = 2\<close>. A fresh cache entry under the key is returned as it is, and a failed
  read gives zero counts.
\<close>

theorem getCommitStats_counts_local_day:
  "(cache_hit now (stats_cache (cache st) (u, utc_date d)) = None \<and> reachable (db st) \<longrightarrow>
      fst (getCommitStats tz now later u d st)
        = \<lparr>count = length (commits_on_day tz u d (db st)),
           hours = card (getHours tz ` commit_timestamp ` set (commits_on_day tz u d (db st)))\<rparr>)
   \<and> (cache_hit now (stats_cache (cache st) (u, utc_date d)) = Some stats \<longrightarrow>
      fst (getCommitStats tz now later u d st) = stats)
   \<and> (cache_hit now (stats_cache (cache st) (u, utc_date d)) = None \<and> \<not> reachable (db st) \<longrightarrow>
      fst (getCommitStats tz now later u d st) = \<lparr>count = 0, hours = 0\<rparr>)"
proof (intro conjI impI; (elim conjE)?)
  assume miss: "cache_hit now (stats_cache (cache st) (u, utc_date d)) = None"
    and up: "reachable (db st)"
  have "length (remdups (map (getHours tz) (map commit_timestamp (commits_on_day tz u d (db st)))))
          = card (getHours tz ` commit_timestamp ` set (commits_on_day tz u d (db st)))"
    by (simp add: length_remdups_card_conv image_image)
  then show "fst (getCommitStats tz now later u d st)
        = \<lparr>count = length (commits_on_day tz u d (db st)),
           hours = card (getHours tz ` commit_timestamp ` set (commits_on_day tz u d (db st)))\<rparr>"
    by (simp add: getCommitStats_fill [OF miss select_commit_timestamps_day [OF up]])
next
  assume "cache_hit now (stats_cache (cache st) (u, utc_date d)) = Some stats"
  then show "fst (getCommitStats tz now later u d st) = stats"
    by (simp add: getCommitStats_hit)
next
  assume miss: "cache_hit now (stats_cache (cache st) (u, utc_date d)) = None"
    and down: "\<not> reachable (db st)"
  from down have "select_commit_timestamps (db st) u (setHours tz d 0 0 0 0)
                    (setHours tz d 23 59 59 999) = (Inl Unreachable, round_trip (db st))"
    by (simp add: select_commit_timestamps_def)
  then show "fst (getCommitStats tz now later u d st) = \<lparr>count = 0, hours = 0\<rparr>"
    by (simp add: getCommitStats_error [OF miss])
qed

lemma three_commits_on_day:
  "commits_on_day (-18000000) ''u'' 1725290000000 three_commits
     = [commit_at 1 ''a1'' 1725286200000, commit_at 2 ''a2'' 1725288000000,
        commit_at 3 ''a3'' 1725289500000]"
  by (simp add: commits_on_day_def three_commits_def no_rows_def commit_at_def local_day_def
        ms_per_day_def)

theorem getCommitStats_counts_local_day_witness:
  "fst (getCommitStats (-18000000) 1725290000000 1725290000100 ''u'' 1725290000000
          (commit_store no_stats three_commits)) = \<lparr>count = 3, hours = 2\<rparr>"
proof -
  have miss: "cache_hit 1725290000000
                (stats_cache (cache (commit_store no_stats three_commits))
                   (''u'', utc_date 1725290000000)) = None"
    by (simp add: commit_store_def no_stats_def)
  have up: "reachable (db (commit_store no_stats three_commits))"
    by (simp add: commit_store_def three_commits_def no_rows_def)
  have day: "commits_on_day (-18000000) ''u'' 1725290000000
               (db (commit_store no_stats three_commits))
             = [commit_at 1 ''a1'' 1725286200000, commit_at 2 ''a2'' 1725288000000,
                commit_at 3 ''a3'' 1725289500000]"
    by (simp add: commit_store_def three_commits_on_day)
  show ?thesis
    using miss up
      getCommitStats_counts_local_day
        [where st = "commit_store no_stats three_commits" and tz = "-18000000"
           and now = 1725290000000 and later = 1725290000100 and u = "''u''"
           and d = 1725290000000]
    by (simp add: day commit_at_def getHours_def ms_per_day_def ms_per_hour_def)
qed

text \<open>
  An entry cached when the table had no rows for the day is still returned, within its
  five minutes, after rows have arrived through another \<open>CommitService\<close> instance (the
  synchronisation has its own).
\<close>

theorem getCommitStats_stale_entry_counterexample:
  "fst (getCommitStats (-18000000) 1725290060000 1725290060100 ''u'' 1725290000000
          (commit_store stale_stats three_commits))
     \<noteq> \<lparr>count = length (commits_on_day (-18000000) ''u'' 1725290000000 three_commits),
         hours = card (getHours (-18000000) ` commit_timestamp `
                         set (commits_on_day (-18000000) ''u'' 1725290000000 three_commits))\<rparr>"
proof -
  have "fst (getCommitStats (-18000000) 1725290060000 1725290060100 ''u'' 1725290000000
          (commit_store stale_stats three_commits)) = \<lparr>count = 0, hours = 0\<rparr>"
    by (simp add: getCommitStats_def commit_store_def stale_stats_def utc_date_def
          ms_per_day_def cache_hit_def CACHE_DURATION_def)
  then show ?thesis
    by (simp add: three_commits_on_day)
qed

text \<open>
  C10. The cache key of \<open>getCommitStats\<close> is built from the user and the UTC calendar
  date of the argument only. After a call for date \<open>d1\<close>, a second call (not earlier
  by the clock) for any date \<open>d2\<close> on the same UTC day, made within five minutes of
  the time stamp of the entry standing under the key, returns the same statistics and
  changes nothing, whatever the time of day of \<open>d2\<close> and whatever its local calendar
  day, although the window queried for an argument is its local day.
\<close>

theorem getCommitStats_key_is_utc_date:
  assumes first: "getCommitStats tz now1 later1 u d1 st = (r1, st1)"
    and same_day: "utc_date d2 = utc_date d1"
    and entry: "stats_cache (cache st1) (u, utc_date d1) = Some c"
    and window: "now2 - timestamp c < CACHE_DURATION"
    and clock: "now1 \<le> now2"
  shows "getCommitStats tz now2 later2 u d2 st1 = (r1, st1)"
proof (cases "cache_hit now1 (stats_cache (cache st) (u, utc_date d1))")
  case (Some stats)
  with first have same: "r1 = stats" "st1 = st"
    by (simp_all add: getCommitStats_hit)
  with Some entry have "data c = stats"
    by (simp add: cache_hit_def split: if_splits)
  with entry window same have "cache_hit now2 (stats_cache (cache st1) (u, utc_date d2)) = Some r1"
    by (simp add: cache_hit_def same_day)
  then show ?thesis
    by (rule getCommitStats_hit)
next
  case None
  show ?thesis
  proof (cases "fst (select_commit_timestamps (db st) u (setHours tz d1 0 0 0 0)
                       (setHours tz d1 23 59 59 999))")
    case (Inl err)
    with first None have "cache st1 = cache st"
      by (auto simp: getCommitStats_error [OF None pair_fst])
    with entry None have "\<not> now1 - timestamp c < CACHE_DURATION"
      by (simp add: cache_hit_def split: if_splits)
    with window clock show ?thesis
      by simp
  next
    case (Inr ts)
    note out = getCommitStats_fill [OF None pair_fst [OF Inr], of later1]
    from first entry have c: "c = \<lparr>data = r1, timestamp = later1\<rparr>"
      unfolding out by auto
    with entry window have "cache_hit now2 (stats_cache (cache st1) (u, utc_date d2)) = Some r1"
      by (simp add: cache_hit_def same_day)
    then show ?thesis
      by (rule getCommitStats_hit)
  qed
qed

theorem getCommitStats_key_is_utc_date_witness:
  "getCommitStats (-18000000) 1725375660000 1725375660100 ''u'' 1725375600000
     (snd (getCommitStats (-18000000) 1725375600000 1725375600100 ''u'' 1725337800000
             (commit_store no_stats three_commits)))
     = (\<lparr>count = 3, hours = 2\<rparr>,
        snd (getCommitStats (-18000000) 1725375600000 1725375600100 ''u'' 1725337800000
               (commit_store no_stats three_commits)))
   \<and> utc_date 1725375600000 = utc_date 1725337800000
   \<and> local_day (-18000000) 1725375600000 \<noteq> local_day (-18000000) 1725337800000
   \<and> commits_on_day (-18000000) ''u'' 1725375600000 three_commits = []"
proof -
  have miss: "cache_hit 1725375600000
                (stats_cache (cache (commit_store no_stats three_commits))
                   (''u'', utc_date 1725337800000)) = None"
    by (simp add: commit_store_def no_stats_def)
  have up: "reachable (db (commit_store no_stats three_commits))"
    by (simp add: commit_store_def three_commits_def no_rows_def)
  have day: "commits_on_day (-18000000) ''u'' 1725337800000
               (db (commit_store no_stats three_commits))
             = [commit_at 1 ''a1'' 1725286200000, commit_at 2 ''a2'' 1725288000000,
                commit_at 3 ''a3'' 1725289500000]"
    by (simp add: commit_store_def commits_on_day_def three_commits_def no_rows_def
          commit_at_def local_day_def ms_per_day_def)
  note out = getCommitStats_fill
               [OF miss select_commit_timestamps_day [OF up],
                where tz = "-18000000" and later = 1725375600100]
  have first: "getCommitStats (-18000000) 1725375600000 1725375600100 ''u'' 1725337800000
                 (commit_store no_stats three_commits)
               = (\<lparr>count = 3, hours = 2\<rparr>,
                  snd (getCommitStats (-18000000) 1725375600000 1725375600100 ''u''
                         1725337800000 (commit_store no_stats three_commits)))"
    unfolding out day
    by (simp add: commit_at_def getHours_def ms_per_day_def ms_per_hour_def)
  have entry: "stats_cache (cache (snd (getCommitStats (-18000000) 1725375600000 1725375600100
                  ''u'' 1725337800000 (commit_store no_stats three_commits))))
                 (''u'', utc_date 1725337800000)
               = Some \<lparr>data = \<lparr>count = 3, hours = 2\<rparr>, timestamp = 1725375600100\<rparr>"
    unfolding out day
    by (simp add: commit_at_def getHours_def ms_per_day_def ms_per_hour_def)
  have same_day: "utc_date 1725375600000 = utc_date 1725337800000"
    by (simp add: utc_date_def ms_per_day_def)
  have window: "1725375660000 - timestamp \<lparr>data = \<lparr>count = 3, hours = 2\<rparr>,
                                            timestamp = 1725375600100\<rparr> < CACHE_DURATION"
    by (simp add: CACHE_DURATION_def)
  have other_day: "local_day (-18000000) 1725375600000 \<noteq> local_day (-18000000) 1725337800000"
    "commits_on_day (-18000000) ''u'' 1725375600000 three_commits = []"
    by (simp_all add: commits_on_day_def three_commits_def no_rows_def commit_at_def
          local_day_def ms_per_day_def)
  show ?thesis
    using getCommitStats_key_is_utc_date
            [OF first same_day entry window, where ?later2.0 = 1725375660100]
      same_day other_day
    by simp
qed

section \<open>Properties of the synchronisation\<close>

subsection \<open>Inserting a commit row\<close>

lemma commit_key_extend [simp]:
  "commit_key (commit_record_insert.extend ins x) = commit_key ins"
  by (simp add: commit_key_def commit_record_insert.defs)

lemma commit_conflict_iff: "commit_conflict b ins \<longleftrightarrow> commit_key ins \<in> commit_keys b"
  by (force simp: commit_conflict_def commit_keys_def commit_key_def)

lemma insert_commit_record_rows:
  "commit_records (snd (insert_commit_record b ins)) =
     (if reachable b \<and> commit_key ins \<notin> commit_keys b
      then commit_records b @ [commit_record_insert.extend ins (commit_record.fields (next_id b))]
      else commit_records b)"
  by (simp add: insert_commit_record_def commit_conflict_iff round_trip_def Let_def)

lemma insert_commit_record_reachable [simp]:
  "reachable (snd (insert_commit_record b ins)) = reachable b"
  by (simp add: insert_commit_record_def round_trip_def Let_def)

lemma insert_commit_record_keys:
  "commit_keys (snd (insert_commit_record b ins)) =
     (if reachable b then insert (commit_key ins) (commit_keys b) else commit_keys b)"
  by (auto simp: commit_keys_def insert_commit_record_rows)

lemma insert_commit_record_inv:
  "one_row_per_commit b \<Longrightarrow> one_row_per_commit (snd (insert_commit_record b ins))"
  by (simp add: one_row_per_commit_def insert_commit_record_rows commit_keys_def)

lemma insert_commit_record_known:
  "commit_key ins \<in> commit_keys b \<Longrightarrow>
     commit_records (snd (insert_commit_record b ins)) = commit_records b"
  by (simp add: insert_commit_record_rows)

lemma addCommitRecord_db:
  "db (snd (addCommitRecord ins st)) = snd (insert_commit_record (db st) ins)"
  by (cases "insert_commit_record (db st) ins" rule: prod.exhaust)
     (auto simp: addCommitRecord_def split: sum.splits)

lemma addCommitRecord_key:
  "commit_key \<lparr>user_id = u, repository = r, commit_hash = h, commit_message = m,
                commit_timestamp = t\<rparr> = (u, h)"
  by (simp add: commit_key_def)

subsection \<open>The two loops\<close>

lemma add_commits_inv:
  "one_row_per_commit (db st) \<Longrightarrow> one_row_per_commit (db (add_commits now u ev entries st))"
  by (induction entries arbitrary: st) (simp_all add: addCommitRecord_db insert_commit_record_inv)

lemma add_commits_reachable [simp]:
  "reachable (db (add_commits now u ev entries st)) = reachable (db st)"
  by (induction entries arbitrary: st) (simp_all add: addCommitRecord_db)

lemma add_commits_keys:
  "commit_keys (db (add_commits now u ev entries st)) =
     (if reachable (db st) then commit_keys (db st) \<union> (\<lambda>c. (u, sha c)) ` set entries
      else commit_keys (db st))"
  by (induction entries arbitrary: st)
     (auto simp: addCommitRecord_db insert_commit_record_keys addCommitRecord_key)

lemma add_commits_known:
  "(\<lambda>c. (u, sha c)) ` set entries \<subseteq> commit_keys (db st) \<Longrightarrow>
     commit_records (db (add_commits now u ev entries st)) = commit_records (db st)"
proof (induction entries arbitrary: st)
  case Nil
  then show ?case by simp
next
  case (Cons c entries)
  let ?ins = "\<lparr>user_id = u, repository = name (repo ev), commit_hash = sha c,
               commit_message = Some (message c),
               commit_timestamp = (case created_at ev of Some t \<Rightarrow> t | None \<Rightarrow> now)\<rparr>"
  let ?st = "snd (addCommitRecord ?ins st)"
  from Cons.prems have "commit_key ?ins \<in> commit_keys (db st)"
    by (simp add: addCommitRecord_key)
  then have same: "commit_records (db ?st) = commit_records (db st)"
    by (simp add: addCommitRecord_db insert_commit_record_known)
  then have "commit_keys (db ?st) = commit_keys (db st)"
    by (simp add: commit_keys_def)
  with Cons.prems have "(\<lambda>c. (u, sha c)) ` set entries \<subseteq> commit_keys (db ?st)"
    by simp
  then have "commit_records (db (add_commits now u ev entries ?st)) = commit_records (db ?st)"
    by (rule Cons.IH)
  with same show ?case
    by simp
qed

lemma synced_keys_Nil [simp]: "synced_keys u [] = {}"
  by (simp add: synced_keys_def)

lemma synced_keys_Cons:
  "synced_keys u (ev # events) =
     (case commits (payload ev) of
        None \<Rightarrow> {}
      | Some entries \<Rightarrow> (\<lambda>c. (u, sha c)) ` set entries) \<union> synced_keys u events"
  by (auto simp: synced_keys_def split: option.splits)

lemma process_commits_inv:
  "one_row_per_commit (db st) \<Longrightarrow> one_row_per_commit (db (process_commits now u events st))"
  by (induction events arbitrary: st) (simp_all add: add_commits_inv split: option.splits)

lemma process_commits_reachable [simp]:
  "reachable (db (process_commits now u events st)) = reachable (db st)"
  by (induction events arbitrary: st) (simp_all split: option.splits)

lemma process_commits_keys:
  "commit_keys (db (process_commits now u events st)) =
     (if reachable (db st) then commit_keys (db st) \<union> synced_keys u events
      else commit_keys (db st))"
  by (induction events arbitrary: st)
     (auto simp: add_commits_keys synced_keys_Cons split: option.splits)

lemma process_commits_known:
  "synced_keys u events \<subseteq> commit_keys (db st) \<Longrightarrow>
     commit_records (db (process_commits now u events st)) = commit_records (db st)"
proof (induction events arbitrary: st)
  case Nil
  then show ?case by simp
next
  case (Cons ev events)
  let ?st = "case commits (payload ev) of
               None \<Rightarrow> st
             | Some entries \<Rightarrow> add_commits now u ev entries st"
  from Cons.prems have same: "commit_records (db ?st) = commit_records (db st)"
    by (auto simp: synced_keys_Cons add_commits_known split: option.splits)
  then have "commit_keys (db ?st) = commit_keys (db st)"
    by (simp add: commit_keys_def)
  with Cons.prems have "synced_keys u events \<subseteq> commit_keys (db ?st)"
    by (simp add: synced_keys_Cons)
  then have "commit_records (db (process_commits now u events ?st)) = commit_records (db ?st)"
    by (rule Cons.IH)
  with same show ?case
    by simp
qed

lemma process_commits_twice:
  assumes "reachable (db st)"
  shows "commit_records (db (process_commits now2 u events (process_commits now1 u events st)))
           = commit_records (db (process_commits now1 u events st))"
  by (rule process_commits_known) (simp add: process_commits_keys assms)

lemma syncCommits_fetched:
  "getCommits token api (subDays now 30) g = (Inr events, g1) \<Longrightarrow>
     syncCommits now u token api (g, st) = (True, g1, process_commits now u events st)"
  by (simp add: syncCommits_def)

lemma syncCommits_inv:
  "one_row_per_commit (db st) \<Longrightarrow>
     one_row_per_commit (db (snd (snd (syncCommits now u token api (g, st)))))"
  by (cases "getCommits token api (subDays now 30) g" rule: prod.exhaust)
     (auto simp: syncCommits_def process_commits_inv split: sum.splits)

text \<open>
  C1. The invariant "at most one row of \<open>commit_records\<close> per (user id, commit hash)"
  is preserved by \<open>syncCommits\<close>, whatever the fetch returns. When two runs fetch the
  same events and the backing store was reachable, both runs return \<open>true\<close> and the
  second leaves the table exactly as the first left it: no row is duplicated. The
  orchestrator makes no existence check; an insert that meets the unique constraint
  makes \<open>addCommitRecord\<close> write one console line and return \<open>null\<close>, with the table
  unchanged.
\<close>

theorem syncCommits_keeps_one_row_per_commit:
  assumes inv: "one_row_per_commit (db st)"
  shows "one_row_per_commit (db (snd (snd (syncCommits now userId token api (g, st)))))
    \<and> (getCommits token api (subDays now 30) g = (Inr events, g1)
         \<and> getCommits token api (subDays now2 30) g1 = (Inr events, g2)
         \<and> reachable (db st) \<longrightarrow>
         (\<exists>st1 st2. syncCommits now userId token api (g, st) = (True, g1, st1)
            \<and> syncCommits now2 userId token api (g1, st1) = (True, g2, st2)
            \<and> commit_records (db st2) = commit_records (db st1)
            \<and> one_row_per_commit (db st2)))
    \<and> (commit_conflict (db st) ins \<and> reachable (db st) \<longrightarrow>
         fst (addCommitRecord ins st) = None
         \<and> commit_records (db (snd (addCommitRecord ins st))) = commit_records (db st)
         \<and> console (snd (addCommitRecord ins st))
             = console st @ [''Error adding commit record:''])"
proof (intro conjI impI)
  show "one_row_per_commit (db (snd (snd (syncCommits now userId token api (g, st)))))"
    using inv by (rule syncCommits_inv)
next
  assume "getCommits token api (subDays now 30) g = (Inr events, g1)
         \<and> getCommits token api (subDays now2 30) g1 = (Inr events, g2)
         \<and> reachable (db st)"
  then have fetch1: "getCommits token api (subDays now 30) g = (Inr events, g1)"
    and fetch2: "getCommits token api (subDays now2 30) g1 = (Inr events, g2)"
    and up: "reachable (db st)"
    by simp_all
  let ?st1 = "process_commits now userId events st"
  let ?st2 = "process_commits now2 userId events ?st1"
  have "syncCommits now userId token api (g, st) = (True, g1, ?st1)"
    using fetch1 by (rule syncCommits_fetched)
  moreover have "syncCommits now2 userId token api (g1, ?st1) = (True, g2, ?st2)"
    using fetch2 by (rule syncCommits_fetched)
  moreover have "commit_records (db ?st2) = commit_records (db ?st1)"
    using up by (rule process_commits_twice)
  moreover have "one_row_per_commit (db ?st2)"
    using inv by (intro process_commits_inv)
  ultimately show "\<exists>st1 st2. syncCommits now userId token api (g, st) = (True, g1, st1)
            \<and> syncCommits now2 userId token api (g1, st1) = (True, g2, st2)
            \<and> commit_records (db st2) = commit_records (db st1)
            \<and> one_row_per_commit (db st2)"
    by blast
next
  assume "commit_conflict (db st) ins \<and> reachable (db st)"
  then have rejected: "insert_commit_record (db st) ins
                         = (Inl UniqueViolation, round_trip (db st))"
    by (simp add: insert_commit_record_def)
  show "fst (addCommitRecord ins st) = None"
    "commit_records (db (snd (addCommitRecord ins st))) = commit_records (db st)"
    "console (snd (addCommitRecord ins st)) = console st @ [''Error adding commit record:'']"
    by (simp_all add: addCommitRecord_rejected [OF rejected] round_trip_def)
qed

theorem syncCommits_keeps_one_row_per_commit_witness:
  "one_row_per_commit (db (commit_store no_stats no_rows))
   \<and> syncCommits 1725375600000 ''u'' (Some ''token'') (answers_with [push_two])
        (unbound_client, commit_store no_stats no_rows)
       = (True, bound_client,
          process_commits 1725375600000 ''u'' [push_two] (commit_store no_stats no_rows))
   \<and> map commit_key
        (commit_records
           (db (process_commits 1725375600000 ''u'' [push_two] (commit_store no_stats no_rows))))
       = [(''u'', ''a1''), (''u'', ''a2'')]
   \<and> fst (syncCommits 1725375660000 ''u'' (Some ''token'') (answers_with [push_two])
             (bound_client,
              process_commits 1725375600000 ''u'' [push_two] (commit_store no_stats no_rows)))
   \<and> commit_records
        (db (snd (snd (syncCommits 1725375660000 ''u'' (Some ''token'')
           (answers_with [push_two])
           (bound_client,
            process_commits 1725375600000 ''u'' [push_two] (commit_store no_stats no_rows))))))
       = commit_records
           (db (process_commits 1725375600000 ''u'' [push_two] (commit_store no_stats no_rows)))"
proof -
  have inv: "one_row_per_commit (db (commit_store no_stats no_rows))"
    by (simp add: one_row_per_commit_def commit_store_def no_rows_def)
  have up: "reachable (db (commit_store no_stats no_rows))"
    by (simp add: commit_store_def no_rows_def)
  have fetch1: "getCommits (Some ''token'') (answers_with [push_two])
                  (subDays 1725375600000 30) unbound_client
                = (Inr [push_two], bound_client)"
    by (simp add: getCommits_def ensureInitialized_def initialize_def unbound_client_def
          bound_client_def is_commit_event_def push_two_def answers_with_def)
  have fetch2: "getCommits (Some ''token'') (answers_with [push_two])
                  (subDays 1725375660000 30) bound_client
                = (Inr [push_two], bound_client)"
    by (simp add: getCommits_def ensureInitialized_def initialize_def bound_client_def
          is_commit_event_def push_two_def answers_with_def)
  have rows: "map commit_key
        (commit_records
           (db (process_commits 1725375600000 ''u'' [push_two] (commit_store no_stats no_rows))))
       = [(''u'', ''a1''), (''u'', ''a2'')]"
    by (simp add: push_two_def addCommitRecord_db insert_commit_record_rows commit_keys_def
          commit_store_def no_rows_def addCommitRecord_key)
  from syncCommits_keeps_one_row_per_commit
        [OF inv, where now = 1725375600000 and ?now2.0 = 1725375660000 and userId = "''u''"
           and token = "Some ''token''" and api = "answers_with [push_two]"
           and g = unbound_client and events = "[push_two]"
           and ?g1.0 = bound_client and ?g2.0 = bound_client]
    fetch1 fetch2 up
  obtain st1 st2 where
    run1: "syncCommits 1725375600000 ''u'' (Some ''token'') (answers_with [push_two])
             (unbound_client, commit_store no_stats no_rows) = (True, bound_client, st1)"
    and run2: "syncCommits 1725375660000 ''u'' (Some ''token'') (answers_with [push_two])
             (bound_client, st1) = (True, bound_client, st2)"
    and same: "commit_records (db st2) = commit_records (db st1)"
    by blast
  from run1 have st1: "st1 = process_commits 1725375600000 ''u'' [push_two]
                               (commit_store no_stats no_rows)"
    by (simp add: syncCommits_fetched [OF fetch1])
  from run1 run2 same inv rows show ?thesis
    unfolding st1 by (simp del: process_commits.simps)
qed

end
